theory Spec2Isabelle
  imports Complex_Main "HOL-Library.Char_ord" "HOL-Library.List_Lexorder"
begin

section \<open>StockSimulate: the simulation engine, its schedule builder and its validation\<close>

text \<open>
  The repository is a TypeScript backtester. The embedding follows
  \<^verbatim>\<open>src/lib/simulator.ts\<close>, \<^verbatim>\<open>src/lib/calendar.ts\<close>,
  \<^verbatim>\<open>src/lib/metrics.ts\<close> and \<^verbatim>\<open>src/lib/schemas/simulation.ts\<close>.

  Numbers. A JavaScript \<^verbatim>\<open>number\<close> is an IEEE double. The engine is modelled over
  \<^typ>\<open>real\<close>: exact arithmetic, no rounding, no overflow, no NaN. \<^verbatim>\<open>Math.min\<close>,
  \<^verbatim>\<open>Math.max\<close> and the comparisons are then \<^const>\<open>min\<close>, \<^const>\<open>max\<close> and the
  order of the reals. The one function of the metrics layer that is modelled guards against
  non-finite quotients; it is modelled over a number type that has the non-finite values
  (see \<open>jsnum\<close> below).

  What rounding changes is outside the model. In particular the amounts
  \<^verbatim>\<open>amount * (weight / totalStockWeight)\<close> of a purchase add up to at most the
  amount here, and to a last digit more than the amount in doubles for some inputs. No
  theorem below rests on that sum, and none bounds the cash or the portfolio value of a run
  from below.

  Strings are \<^typ>\<open>string\<close>; ISO dates \<^verbatim>\<open>YYYY-MM-DD\<close> are compared by
  \<^verbatim>\<open>localeCompare\<close> in the source, which on strings of digits and hyphens of one
  shape is the lexicographic order of the characters; the model uses that order.
\<close>

subsection \<open>Data model (\<^verbatim>\<open>src/lib/types.ts\<close>)\<close>

record PricePoint =
  date :: string
  close :: real
  adjustedClose :: real
  dividendPerShare :: real
  splitRatio :: real

datatype DividendPolicy = to_cash | reinvest_same_asset

text \<open>\<^verbatim>\<open>AllocationInput\<close>: what a request carries.\<close>

record AllocationInput =
  in_ticker :: string
  targetWeight :: real
  in_expenseRatio :: real

text \<open>\<^verbatim>\<open>NormalizedAllocation\<close> of the simulator.\<close>

record NormalizedAllocation =
  ticker :: string
  weight :: real
  expenseRatio :: real

record SimulationRequest =
  startDate :: string
  endDate :: string
  initialAmount :: real
  monthlySalary :: real
  monthlyContribution :: real
  minimumCashReserve :: real
  dividendPolicy :: DividendPolicy
  allocations :: "AllocationInput list"
  benchmarkTicker :: string
  riskFreeRate :: real

record TimelinePoint =
  tl_date :: string
  stockValue :: real
  cashValue :: real
  portfolioValue :: real
  benchmarkValue :: real
  investedCapital :: real
  netFlow :: real

subsection \<open>Constants of the simulator\<close>

definition WEIGHT_DRIFT_TOLERANCE :: real where
  "WEIGHT_DRIFT_TOLERANCE = 5 / 1000"

definition TRADING_DAYS_PER_YEAR :: real where
  "TRADING_DAYS_PER_YEAR = 252"

definition MONTHLY_LIVING_COST :: real where
  "MONTHLY_LIVING_COST = 1000000"

subsection \<open>Budget under the cash floor\<close>

text \<open>\<^verbatim>\<open>getTotalStockWeight\<close>: a left fold of \<open>+\<close> from 0.\<close>

definition getTotalStockWeight :: "NormalizedAllocation list \<Rightarrow> real" where
  "getTotalStockWeight allocs = foldl (\<lambda>sum a. sum + weight a) 0 allocs"

definition computeDesiredStockBudget :: "real \<Rightarrow> real \<Rightarrow> real \<Rightarrow> real" where
  "computeDesiredStockBudget pv totalStockWeight minReserve =
     (if pv \<le> 0 \<or> totalStockWeight \<le> 0 then 0
      else
        let cashFloor = min minReserve pv;
            desiredStock = pv * totalStockWeight;
            maxStockWithFloor = max 0 (pv - cashFloor)
        in max 0 (min desiredStock maxStockWithFloor))"

text \<open>\<^verbatim>\<open>clampNumber\<close>, the clamp of the repository (beside its formatting helpers).\<close>

definition clampNumber :: "real \<Rightarrow> real \<Rightarrow> real \<Rightarrow> real" where
  "clampNumber v minimum maximum = max minimum (min maximum v)"

subsection \<open>Calendar (\<^verbatim>\<open>src/lib/calendar.ts\<close>)\<close>

text \<open>
  \<^verbatim>\<open>sortIsoDates\<close> sorts a copy with \<^verbatim>\<open>localeCompare\<close>; the sort of the
  library is stable, as the one of JavaScript.
\<close>

definition sortIsoDates :: "string list \<Rightarrow> string list" where
  "sortIsoDates dates = sort dates"

definition isDigit :: "char \<Rightarrow> bool" where
  "isDigit c = (CHR ''0'' \<le> c \<and> c \<le> CHR ''9'')"

definition digitVal :: "char \<Rightarrow> nat" where
  "digitVal c = of_char c - 48"

definition parseNat :: "string \<Rightarrow> nat" where
  "parseNat s = foldl (\<lambda>n c. 10 * n + digitVal c) 0 s"

definition isLeapYear :: "nat \<Rightarrow> bool" where
  "isLeapYear y = (y mod 4 = 0 \<and> (y mod 100 \<noteq> 0 \<or> y mod 400 = 0))"

definition daysInMonth :: "nat \<Rightarrow> nat \<Rightarrow> nat" where
  "daysInMonth y m =
     (if m = 2 then (if isLeapYear y then 29 else 28)
      else if m = 4 \<or> m = 6 \<or> m = 9 \<or> m = 11 then 30 else 31)"

text \<open>The regular expression \<^verbatim>\<open>^\d{4}-\d{2}-\d{2}$\<close> of the request schema.\<close>

fun isoDateRegex :: "string \<Rightarrow> bool" where
  "isoDateRegex [y1, y2, y3, y4, s1, m1, m2, s2, d1, d2] =
     (isDigit y1 \<and> isDigit y2 \<and> isDigit y3 \<and> isDigit y4 \<and> s1 = CHR ''-''
      \<and> isDigit m1 \<and> isDigit m2 \<and> s2 = CHR ''-'' \<and> isDigit d1 \<and> isDigit d2)"
| "isoDateRegex _ = False"

text \<open>
  A JavaScript \<^verbatim>\<open>Date\<close>: either a UTC calendar day or the Invalid Date, whose
  fields read as NaN (\<open>None\<close> below). \<open>utcMonth\<close> is zero-based, as
  \<^verbatim>\<open>getUTCMonth\<close> is.
\<close>

record UtcDate =
  utcFullYear :: nat
  utcMonth :: nat
  utcDay :: nat

definition isCalendarDate :: "string \<Rightarrow> bool" where
  "isCalendarDate s =
     (isoDateRegex s
      \<and> 1 \<le> parseNat (take 2 (drop 5 s)) \<and> parseNat (take 2 (drop 5 s)) \<le> 12
      \<and> 1 \<le> parseNat (drop 8 s)
      \<and> parseNat (drop 8 s) \<le> daysInMonth (parseNat (take 4 s)) (parseNat (take 2 (drop 5 s))))"

text \<open>
  \<^verbatim>\<open>toUtcDate\<close> is \<^verbatim>\<open>new Date(`${dateIso}T00:00:00Z`)\<close>. The model parses the
  calendar dates written \<^verbatim>\<open>YYYY-MM-DD\<close>, which is what the market-data loader
  produces (\<^verbatim>\<open>toISOString().slice(0, 10)\<close>); every other string is taken to
  give the Invalid Date. What an engine makes of a string that is not a calendar date
  (a day 30 of February, other date formats) is outside the model.
\<close>

definition toUtcDate :: "string \<Rightarrow> UtcDate option" where
  "toUtcDate dateIso =
     (if isCalendarDate dateIso
      then Some \<lparr>utcFullYear = parseNat (take 4 dateIso),
                 utcMonth = parseNat (take 2 (drop 5 dateIso)) - 1,
                 utcDay = parseNat (drop 8 dateIso)\<rparr>
      else None)"

definition getUTCFullYear :: "UtcDate option \<Rightarrow> nat option" where
  "getUTCFullYear d = map_option utcFullYear d"

definition getUTCMonth :: "UtcDate option \<Rightarrow> nat option" where
  "getUTCMonth d = map_option utcMonth d"

definition isQuarterStartMonth :: "nat \<Rightarrow> bool" where
  "isQuarterStartMonth month = (month = 0 \<or> month = 3 \<or> month = 6 \<or> month = 9)"

text \<open>Decimal printing of a number inside a template string; NaN prints as \<^verbatim>\<open>NaN\<close>.\<close>

definition digitChar :: "nat \<Rightarrow> char" where
  "digitChar n = ''0123456789'' ! n"

fun showNat :: "nat \<Rightarrow> string" where
  "showNat n =
     (if n < 10 then [digitChar n]
      else showNat (n div 10) @ [digitChar (n mod 10)])"

declare showNat.simps [simp del]

definition showNumber :: "nat option \<Rightarrow> string" where
  "showNumber v = (case v of None \<Rightarrow> ''NaN'' | Some n \<Rightarrow> showNat n)"

text \<open>The key \<^verbatim>\<open>`${parsed.getUTCFullYear()}-${parsed.getUTCMonth()}`\<close>.\<close>

definition monthKey :: "string \<Rightarrow> string" where
  "monthKey day =
     (let parsed = toUtcDate day
      in showNumber (getUTCFullYear parsed) @ ''-'' @ showNumber (getUTCMonth parsed))"

text \<open>\<^verbatim>\<open>isQuarterStartMonth(parsed.getUTCMonth())\<close>; NaN equals no number.\<close>

definition isQuarterStartDay :: "string \<Rightarrow> bool" where
  "isQuarterStartDay day =
     (case getUTCMonth (toUtcDate day) of None \<Rightarrow> False | Some m \<Rightarrow> isQuarterStartMonth m)"

record Schedules =
  contributionDays :: "string set"
  rebalanceDays :: "string set"

text \<open>
  The loop of \<^verbatim>\<open>buildTradingSchedules\<close>; its state is the two sets and
  \<^verbatim>\<open>currentMonthKey\<close>.
\<close>

fun scheduleLoop :: "string list \<Rightarrow> string set \<times> string set \<times> string
    \<Rightarrow> string set \<times> string set \<times> string" where
  "scheduleLoop [] st = st"
| "scheduleLoop (day # rest) (cds, rds, currentMonthKey) =
     (if monthKey day \<noteq> currentMonthKey
      then scheduleLoop rest
             (insert day cds,
              (if isQuarterStartDay day then insert day rds else rds),
              monthKey day)
      else scheduleLoop rest (cds, rds, currentMonthKey))"

definition buildTradingSchedules :: "string list \<Rightarrow> Schedules" where
  "buildTradingSchedules tradingDays =
     (let sorted = sortIsoDates tradingDays;
          st = scheduleLoop sorted ({}, {}, '''')
      in \<lparr>contributionDays = fst st, rebalanceDays = fst (snd st)\<rparr>)"

text \<open>The year and the zero-based month of a date, as \<^verbatim>\<open>getUTCFullYear\<close> and
  \<^verbatim>\<open>getUTCMonth\<close> read them; \<open>None\<close> for the Invalid Date.\<close>

definition yearMonth :: "string \<Rightarrow> (nat \<times> nat) option" where
  "yearMonth day = map_option (\<lambda>u. (utcFullYear u, utcMonth u)) (toUtcDate day)"

text \<open>The trading days of the repository's test of \<^verbatim>\<open>buildTradingSchedules\<close>.\<close>

definition testTradingDays :: "string list" where
  "testTradingDays =
     [''2024-01-02'', ''2024-01-03'', ''2024-02-01'', ''2024-03-01'', ''2024-04-01'', ''2024-04-02'']"

subsection \<open>The simulator (\<^verbatim>\<open>src/lib/simulator.ts\<close>): maps and allocations\<close>

text \<open>
  A \<^verbatim>\<open>Map<string, number>\<close> and the \<^verbatim>\<open>Record<string, number>\<close> of the holdings are
  partial maps. \<^verbatim>\<open>new Map(entries)\<close> stores the entries in order, a later entry
  replacing an earlier one with the same key.
\<close>

definition newMap :: "(string \<times> real) list \<Rightarrow> (string \<rightharpoonup> real)" where
  "newMap entries = foldl (\<lambda>m (k, v). m(k \<mapsto> v)) Map.empty entries"

definition toCloseMap :: "PricePoint list \<Rightarrow> (string \<rightharpoonup> real)" where
  "toCloseMap points = newMap (map (\<lambda>point. (date point, close point)) points)"

definition toAdjustedMap :: "PricePoint list \<Rightarrow> (string \<rightharpoonup> real)" where
  "toAdjustedMap points = newMap (map (\<lambda>point. (date point, adjustedClose point)) points)"

definition toDividendMap :: "PricePoint list \<Rightarrow> (string \<rightharpoonup> real)" where
  "toDividendMap points =
     newMap (map (\<lambda>point. (date point, dividendPerShare point))
               (filter (\<lambda>point. dividendPerShare point > 0) points))"

definition toSplitMap :: "PricePoint list \<Rightarrow> (string \<rightharpoonup> real)" where
  "toSplitMap points =
     newMap (map (\<lambda>point. (date point, splitRatio point))
               (filter (\<lambda>point. splitRatio point > 0 \<and> splitRatio point \<noteq> 1) points))"

definition intersectDates :: "string list list \<Rightarrow> string list" where
  "intersectDates dateLists =
     (case dateLists of
        [] \<Rightarrow> []
      | first # rest \<Rightarrow>
          filter (\<lambda>d. list_all (\<lambda>dates. List.member dates d) rest) (sortIsoDates first))"

text \<open>\<^verbatim>\<open>toUpperCase\<close>, on the letters of ASCII (tickers are ASCII).\<close>

definition upperChar :: "char \<Rightarrow> char" where
  "upperChar c =
     (case map_of (zip ''abcdefghijklmnopqrstuvwxyz'' ''ABCDEFGHIJKLMNOPQRSTUVWXYZ'') c of
        None \<Rightarrow> c
      | Some u \<Rightarrow> u)"

definition toUpperCase :: "string \<Rightarrow> string" where
  "toUpperCase s = map upperChar s"

definition normalizeAllocations :: "AllocationInput list \<Rightarrow> NormalizedAllocation list" where
  "normalizeAllocations allocs =
     map (\<lambda>allocation.
            \<lparr>ticker = toUpperCase (in_ticker allocation),
             weight = targetWeight allocation / 100,
             expenseRatio = in_expenseRatio allocation\<rparr>) allocs"

text \<open>\<^verbatim>\<open>holdings[ticker] ?? 0\<close> and \<^verbatim>\<open>map.get(day) ?? 0\<close>.\<close>

definition orZero :: "real option \<Rightarrow> real" where
  "orZero v = (case v of None \<Rightarrow> 0 | Some x \<Rightarrow> x)"

subsection \<open>The simulator: the operations of one day\<close>

text \<open>
  Each function that mutates \<^verbatim>\<open>holdings\<close> in the source returns the new holdings here,
  beside the number it returns in the source. \<^verbatim>\<open>!price || price <= 0\<close> skips a missing
  price, 0 and the negative prices.
\<close>

fun investLoop :: "real \<Rightarrow> string \<Rightarrow> real \<Rightarrow> (string \<Rightarrow> (string \<rightharpoonup> real))
    \<Rightarrow> NormalizedAllocation list \<Rightarrow> (string \<rightharpoonup> real) \<times> real \<Rightarrow> (string \<rightharpoonup> real) \<times> real" where
  "investLoop amount day totalStockWeight closeMaps [] (holdings, invested) = (holdings, invested)"
| "investLoop amount day totalStockWeight closeMaps (allocation # rest) (holdings, invested) =
     (case closeMaps (ticker allocation) day of
        None \<Rightarrow> investLoop amount day totalStockWeight closeMaps rest (holdings, invested)
      | Some price \<Rightarrow>
          if price \<le> 0
          then investLoop amount day totalStockWeight closeMaps rest (holdings, invested)
          else
            let relativeWeight = weight allocation / totalStockWeight;
                allocationAmount = amount * relativeWeight
            in investLoop amount day totalStockWeight closeMaps rest
                 (holdings(ticker allocation \<mapsto>
                    orZero (holdings (ticker allocation)) + allocationAmount / price),
                  invested + allocationAmount))"

definition investByRelativeStockWeights :: "real \<Rightarrow> string \<Rightarrow> NormalizedAllocation list
    \<Rightarrow> (string \<rightharpoonup> real) \<Rightarrow> (string \<Rightarrow> (string \<rightharpoonup> real)) \<Rightarrow> (string \<rightharpoonup> real) \<times> real" where
  "investByRelativeStockWeights amount day allocs holdings closeMaps =
     (if amount \<le> 0 then (holdings, 0)
      else
        let totalStockWeight = getTotalStockWeight allocs
        in if totalStockWeight \<le> 0 then (holdings, 0)
           else investLoop amount day totalStockWeight closeMaps allocs (holdings, 0))"

fun applyDailyExpenseDrag :: "NormalizedAllocation list \<Rightarrow> (string \<rightharpoonup> real) \<Rightarrow> (string \<rightharpoonup> real)" where
  "applyDailyExpenseDrag [] holdings = holdings"
| "applyDailyExpenseDrag (allocation # rest) holdings =
     (let feeDrag = expenseRatio allocation / TRADING_DAYS_PER_YEAR
      in applyDailyExpenseDrag rest
           (holdings(ticker allocation \<mapsto> orZero (holdings (ticker allocation)) * (1 - feeDrag))))"

fun applySplitEvents :: "string \<Rightarrow> NormalizedAllocation list \<Rightarrow> (string \<rightharpoonup> real)
    \<Rightarrow> (string \<Rightarrow> (string \<rightharpoonup> real)) \<Rightarrow> (string \<rightharpoonup> real)" where
  "applySplitEvents day [] holdings splitMaps = holdings"
| "applySplitEvents day (allocation # rest) holdings splitMaps =
     (case splitMaps (ticker allocation) day of
        None \<Rightarrow> applySplitEvents day rest holdings splitMaps
      | Some ratio \<Rightarrow>
          if ratio \<le> 0 \<or> ratio = 1
          then applySplitEvents day rest holdings splitMaps
          else applySplitEvents day rest
                 (holdings(ticker allocation \<mapsto> orZero (holdings (ticker allocation)) * ratio))
                 splitMaps)"

fun applyDividendEvents :: "string \<Rightarrow> NormalizedAllocation list \<Rightarrow> (string \<rightharpoonup> real)
    \<Rightarrow> (string \<Rightarrow> (string \<rightharpoonup> real)) \<Rightarrow> (string \<Rightarrow> (string \<rightharpoonup> real)) \<Rightarrow> DividendPolicy \<Rightarrow> real
    \<Rightarrow> (string \<rightharpoonup> real) \<times> real" where
  "applyDividendEvents day [] holdings closeMaps dividendMaps policy nextCash = (holdings, nextCash)"
| "applyDividendEvents day (allocation # rest) holdings closeMaps dividendMaps policy nextCash =
     (let perShare = orZero (dividendMaps (ticker allocation) day)
      in if perShare \<le> 0
         then applyDividendEvents day rest holdings closeMaps dividendMaps policy nextCash
         else
           let shares = orZero (holdings (ticker allocation))
           in if shares \<le> 0
              then applyDividendEvents day rest holdings closeMaps dividendMaps policy nextCash
              else
                let payout = shares * perShare
                in if payout \<le> 0
                   then applyDividendEvents day rest holdings closeMaps dividendMaps policy nextCash
                   else if policy = to_cash
                   then applyDividendEvents day rest holdings closeMaps dividendMaps policy
                          (nextCash + payout)
                   else
                     let price = orZero (closeMaps (ticker allocation) day)
                     in if price > 0
                        then applyDividendEvents day rest
                               (holdings(ticker allocation \<mapsto> shares + payout / price))
                               closeMaps dividendMaps policy nextCash
                        else applyDividendEvents day rest holdings closeMaps dividendMaps policy
                               (nextCash + payout))"

definition computeStockValue :: "string \<Rightarrow> NormalizedAllocation list \<Rightarrow> (string \<rightharpoonup> real)
    \<Rightarrow> (string \<Rightarrow> (string \<rightharpoonup> real)) \<Rightarrow> real" where
  "computeStockValue day allocs holdings closeMaps =
     foldl (\<lambda>total allocation.
              let price = orZero (closeMaps (ticker allocation) day);
                  shares = orZero (holdings (ticker allocation))
              in total + shares * price) 0 allocs"

definition computePortfolioValue :: "real \<Rightarrow> real \<Rightarrow> real" where
  "computePortfolioValue stockVal cashVal = stockVal + cashVal"

fun getCurrentWeightsLoop :: "string \<Rightarrow> NormalizedAllocation list \<Rightarrow> (string \<rightharpoonup> real)
    \<Rightarrow> (string \<Rightarrow> (string \<rightharpoonup> real)) \<Rightarrow> real \<Rightarrow> (string \<rightharpoonup> real) \<Rightarrow> (string \<rightharpoonup> real)" where
  "getCurrentWeightsLoop day [] holdings closeMaps pv weights = weights"
| "getCurrentWeightsLoop day (allocation # rest) holdings closeMaps pv weights =
     (let price = orZero (closeMaps (ticker allocation) day);
          positionValue = orZero (holdings (ticker allocation)) * price
      in getCurrentWeightsLoop day rest holdings closeMaps pv
           (weights(ticker allocation \<mapsto> (if pv > 0 then positionValue / pv else 0))))"

definition getCurrentWeights :: "string \<Rightarrow> NormalizedAllocation list \<Rightarrow> (string \<rightharpoonup> real)
    \<Rightarrow> (string \<Rightarrow> (string \<rightharpoonup> real)) \<Rightarrow> real \<Rightarrow> (string \<rightharpoonup> real)" where
  "getCurrentWeights day allocs holdings closeMaps pv =
     getCurrentWeightsLoop day allocs holdings closeMaps pv Map.empty"

definition shouldRebalance :: "string \<Rightarrow> NormalizedAllocation list \<Rightarrow> (string \<rightharpoonup> real)
    \<Rightarrow> (string \<Rightarrow> (string \<rightharpoonup> real)) \<Rightarrow> real \<Rightarrow> real \<Rightarrow> bool" where
  "shouldRebalance day allocs holdings closeMaps cashVal minReserve =
     (let stockVal = computeStockValue day allocs holdings closeMaps;
          pv = computePortfolioValue stockVal cashVal
      in if pv \<le> 0 then False
         else
           let totalStockWeight = getTotalStockWeight allocs;
               currentWeights = getCurrentWeights day allocs holdings closeMaps pv;
               targetStockBudget = computeDesiredStockBudget pv totalStockWeight minReserve;
               targetCashWeight = (if pv > 0 then (pv - targetStockBudget) / pv else 0);
               currentCashWeight = (if pv > 0 then cashVal / pv else 0)
           in if \<bar>currentCashWeight - targetCashWeight\<bar> > WEIGHT_DRIFT_TOLERANCE then True
              else if totalStockWeight \<le> 0 \<or> targetStockBudget \<le> 0 then False
              else list_ex (\<lambda>allocation.
                     let relativeWeight = weight allocation / totalStockWeight;
                         targetWeight = (targetStockBudget * relativeWeight) / pv
                     in \<bar>orZero (currentWeights (ticker allocation)) - targetWeight\<bar>
                          > WEIGHT_DRIFT_TOLERANCE) allocs)"

fun liquidateLoop :: "NormalizedAllocation list \<Rightarrow> (string \<rightharpoonup> real) \<Rightarrow> (string \<rightharpoonup> real)" where
  "liquidateLoop [] holdings = holdings"
| "liquidateLoop (allocation # rest) holdings =
     liquidateLoop rest (holdings(ticker allocation \<mapsto> 0))"

fun retargetLoop :: "string \<Rightarrow> real \<Rightarrow> real \<Rightarrow> (string \<Rightarrow> (string \<rightharpoonup> real))
    \<Rightarrow> NormalizedAllocation list \<Rightarrow> (string \<rightharpoonup> real) \<times> real \<Rightarrow> (string \<rightharpoonup> real) \<times> real" where
  "retargetLoop day targetStockBudget totalStockWeight closeMaps [] (holdings, targetStockValue) =
     (holdings, targetStockValue)"
| "retargetLoop day targetStockBudget totalStockWeight closeMaps (allocation # rest)
       (holdings, targetStockValue) =
     (case closeMaps (ticker allocation) day of
        None \<Rightarrow> retargetLoop day targetStockBudget totalStockWeight closeMaps rest
                  (holdings, targetStockValue)
      | Some price \<Rightarrow>
          if price \<le> 0
          then retargetLoop day targetStockBudget totalStockWeight closeMaps rest
                 (holdings, targetStockValue)
          else
            let relativeWeight = weight allocation / totalStockWeight;
                targetValue = targetStockBudget * relativeWeight
            in retargetLoop day targetStockBudget totalStockWeight closeMaps rest
                 (holdings(ticker allocation \<mapsto> targetValue / price),
                  targetStockValue + targetValue))"

text \<open>\<^verbatim>\<open>rebalancePortfolio\<close> returns the new cash; the model returns the holdings too.\<close>

definition rebalancePortfolio :: "string \<Rightarrow> NormalizedAllocation list \<Rightarrow> (string \<rightharpoonup> real)
    \<Rightarrow> (string \<Rightarrow> (string \<rightharpoonup> real)) \<Rightarrow> real \<Rightarrow> real \<Rightarrow> (string \<rightharpoonup> real) \<times> real" where
  "rebalancePortfolio day allocs holdings closeMaps cashVal minReserve =
     (let stockVal = computeStockValue day allocs holdings closeMaps;
          pv = computePortfolioValue stockVal cashVal
      in if pv \<le> 0 then (holdings, cashVal)
         else
           let totalStockWeight = getTotalStockWeight allocs;
               targetStockBudget = computeDesiredStockBudget pv totalStockWeight minReserve
           in if targetStockBudget \<le> 0 \<or> totalStockWeight \<le> 0
              then (liquidateLoop allocs holdings, pv)
              else
                let (holdings', targetStockValue) =
                      retargetLoop day targetStockBudget totalStockWeight closeMaps allocs
                        (holdings, 0)
                in (holdings', max 0 (pv - targetStockValue)))"

subsection \<open>The simulator: the day loop of \<^verbatim>\<open>runSimulation\<close>\<close>

text \<open>
  What the loop reads and never writes: the request, the filtered allocations, the maps built
  from the price histories, the two schedules and the total stock weight.
\<close>

record SimEnv =
  env_request :: SimulationRequest
  env_allocations :: "NormalizedAllocation list"
  env_benchmarkTicker :: string
  env_closeMaps :: "string \<Rightarrow> (string \<rightharpoonup> real)"
  env_adjustedMaps :: "string \<Rightarrow> (string \<rightharpoonup> real)"
  env_dividendMaps :: "string \<Rightarrow> (string \<rightharpoonup> real)"
  env_splitMaps :: "string \<Rightarrow> (string \<rightharpoonup> real)"
  env_schedules :: Schedules
  env_totalStockWeight :: real

text \<open>
  The variables the loop writes: \<^verbatim>\<open>holdings\<close>, \<^verbatim>\<open>cashValue\<close>,
  \<^verbatim>\<open>benchmarkShares\<close>, \<^verbatim>\<open>totalInvested\<close>, \<^verbatim>\<open>contributions\<close>, the
  \<^verbatim>\<open>netFlow\<close> of the current day and the \<^verbatim>\<open>timeline\<close>.
\<close>

record SimState =
  st_holdings :: "string \<rightharpoonup> real"
  st_cashValue :: real
  st_benchmarkShares :: real
  st_totalInvested :: real
  st_contributions :: real
  st_netFlow :: real
  st_timeline :: "TimelinePoint list"

text \<open>The body of the loop, cut at its blocks. First \<^verbatim>\<open>netFlow = 0\<close>, the splits, then the dividends.\<close>

definition eventsStep :: "SimEnv \<Rightarrow> string \<Rightarrow> SimState \<Rightarrow> SimState" where
  "eventsStep env day st =
     (let holdings1 = applySplitEvents day (env_allocations env) (st_holdings st) (env_splitMaps env);
          (holdings2, cash2) =
             applyDividendEvents day (env_allocations env) holdings1 (env_closeMaps env)
               (env_dividendMaps env) (dividendPolicy (env_request env)) (st_cashValue st)
      in st\<lparr>st_netFlow := 0, st_holdings := holdings2, st_cashValue := cash2\<rparr>)"

text \<open>The block \<^verbatim>\<open>if (index === 0 && request.initialAmount > 0)\<close>: the initial investment.\<close>

definition initialStep :: "SimEnv \<Rightarrow> nat \<Rightarrow> string \<Rightarrow> SimState \<Rightarrow> SimState" where
  "initialStep env index day st =
     (let request = env_request env
      in if index = 0 \<and> initialAmount request > 0
         then
           let benchmarkPrice = orZero (env_adjustedMaps env (env_benchmarkTicker env) day);
               cash1 = st_cashValue st + initialAmount request;
               initialStockBudget =
                 computeDesiredStockBudget cash1 (env_totalStockWeight env)
                   (minimumCashReserve request);
               (holdings', spentInitial) =
                 investByRelativeStockWeights initialStockBudget day (env_allocations env)
                   (st_holdings st) (env_closeMaps env)
           in st\<lparr>st_cashValue := cash1 - spentInitial,
                  st_totalInvested := st_totalInvested st + initialAmount request,
                  st_netFlow := st_netFlow st + initialAmount request,
                  st_holdings := holdings',
                  st_benchmarkShares :=
                    (if benchmarkPrice > 0
                     then st_benchmarkShares st + initialAmount request / benchmarkPrice
                     else st_benchmarkShares st)\<rparr>
         else st)"

text \<open>The block \<^verbatim>\<open>if (contributionDays.has(day))\<close>: the salary and the monthly contribution.\<close>

definition contributionStep :: "SimEnv \<Rightarrow> string \<Rightarrow> SimState \<Rightarrow> SimState" where
  "contributionStep env day st =
     (let request = env_request env
      in if day \<in> contributionDays (env_schedules env)
         then
           let benchmarkPrice = orZero (env_adjustedMaps env (env_benchmarkTicker env) day);
               salaryNet = max 0 (monthlySalary request - MONTHLY_LIVING_COST);
               st1 =
                 (if salaryNet > 0
                  then st\<lparr>st_cashValue := st_cashValue st + salaryNet,
                          st_totalInvested := st_totalInvested st + salaryNet,
                          st_contributions := st_contributions st + salaryNet,
                          st_netFlow := st_netFlow st + salaryNet,
                          st_benchmarkShares :=
                            (if benchmarkPrice > 0
                             then st_benchmarkShares st + salaryNet / benchmarkPrice
                             else st_benchmarkShares st)\<rparr>
                  else st);
               investable = max 0 (st_cashValue st1 - minimumCashReserve request)
           in if monthlyContribution request > 0 \<and> investable > 0
              then
                let actualContribution = min (monthlyContribution request) investable;
                    (holdings', spentContribution) =
                      investByRelativeStockWeights actualContribution day (env_allocations env)
                        (st_holdings st1) (env_closeMaps env)
                in st1\<lparr>st_holdings := holdings',
                        st_cashValue := st_cashValue st1 - spentContribution\<rparr>
              else st1
         else st)"

text \<open>The call of \<^verbatim>\<open>applyDailyExpenseDrag\<close>.\<close>

definition expenseStep :: "SimEnv \<Rightarrow> SimState \<Rightarrow> SimState" where
  "expenseStep env st =
     st\<lparr>st_holdings := applyDailyExpenseDrag (env_allocations env) (st_holdings st)\<rparr>"

text \<open>The rebalance: after the first day, on a rebalance day that drifted.\<close>

definition rebalanceStep :: "SimEnv \<Rightarrow> nat \<Rightarrow> string \<Rightarrow> SimState \<Rightarrow> SimState" where
  "rebalanceStep env index day st =
     (if index > 0 \<and> day \<in> rebalanceDays (env_schedules env)
         \<and> shouldRebalance day (env_allocations env) (st_holdings st) (env_closeMaps env)
              (st_cashValue st) (minimumCashReserve (env_request env))
      then
        let (holdings', cash') =
              rebalancePortfolio day (env_allocations env) (st_holdings st) (env_closeMaps env)
                (st_cashValue st) (minimumCashReserve (env_request env))
        in st\<lparr>st_holdings := holdings', st_cashValue := cash'\<rparr>
      else st)"

text \<open>The end of the body: the point of the day is appended to the timeline.\<close>

definition recordStep :: "SimEnv \<Rightarrow> string \<Rightarrow> SimState \<Rightarrow> SimState" where
  "recordStep env day st =
     (let stockVal = computeStockValue day (env_allocations env) (st_holdings st) (env_closeMaps env);
          pv = computePortfolioValue stockVal (st_cashValue st);
          benchmarkPrice = orZero (env_adjustedMaps env (env_benchmarkTicker env) day);
          benchmarkVal = st_benchmarkShares st * benchmarkPrice
      in st\<lparr>st_timeline := st_timeline st @
              [\<lparr>tl_date = day, stockValue = stockVal, cashValue = st_cashValue st,
                portfolioValue = pv, benchmarkValue = benchmarkVal,
                investedCapital = st_totalInvested st, netFlow = st_netFlow st\<rparr>]\<rparr>)"

definition dayStep :: "SimEnv \<Rightarrow> nat \<Rightarrow> string \<Rightarrow> SimState \<Rightarrow> SimState" where
  "dayStep env index day st =
     recordStep env day
       (rebalanceStep env index day
          (expenseStep env
             (contributionStep env day
                (initialStep env index day
                   (eventsStep env day st)))))"

text \<open>The loop \<^verbatim>\<open>for (index = 0; index < tradingDays.length; index += 1)\<close>.\<close>

fun dayLoop :: "SimEnv \<Rightarrow> nat \<Rightarrow> string list \<Rightarrow> SimState \<Rightarrow> SimState" where
  "dayLoop env index [] st = st"
| "dayLoop env index (day # rest) st = dayLoop env (Suc index) rest (dayStep env index day st)"

subsection \<open>\<^verbatim>\<open>runSimulation\<close>\<close>

text \<open>
  The two plain errors \<^verbatim>\<open>runSimulation\<close> throws, named by what they report, and the
  \<^verbatim>\<open>YahooDataError\<close> that \<^verbatim>\<open>getHistoricalSeries\<close> throws, with its message.
\<close>

datatype SimError =
  NoPositiveWeightError
  | YahooDataError string
  | InsufficientDaysError

text \<open>
  The result: the timeline and the cash-flow breakdown. The \<^verbatim>\<open>metrics\<close>,
  \<^verbatim>\<open>yearlyReturns\<close> and \<^verbatim>\<open>drawdown\<close> of the source are computed from the finished
  timeline by the metrics layer and are not modelled, nor is \<^verbatim>\<open>gains\<close>, which is read
  from the metrics.
\<close>

record SimulationResult =
  timeline :: "TimelinePoint list"
  initialPrincipal :: real
  contributions :: real
  totalInvested :: real
  endingCash :: real
  endingStockValue :: real

text \<open>\<^verbatim>\<open>[...new Set(list)]\<close>: the first occurrence of each element, in order.\<close>

definition uniqueInOrder :: "string list \<Rightarrow> string list" where
  "uniqueInOrder xs = foldl (\<lambda>seen x. if List.member seen x then seen else seen @ [x]) [] xs"

text \<open>
  \<^verbatim>\<open>Promise.all\<close> over the fetched histories: the first failure is the failure of the
  whole, otherwise the points of every ticker. \<^verbatim>\<open>historyMap\<close> is then read only at
  tickers it holds.
\<close>

fun collectHistories :: "(string \<times> (string + PricePoint list)) list
    \<Rightarrow> string + (string \<times> PricePoint list) list" where
  "collectHistories [] = Inr []"
| "collectHistories ((t, Inl message) # rest) = Inl message"
| "collectHistories ((t, Inr points) # rest) =
     (case collectHistories rest of
        Inl message \<Rightarrow> Inl message
      | Inr entries \<Rightarrow> Inr ((t, points) # entries))"

definition buildHistoryMap :: "(string \<times> PricePoint list) list \<Rightarrow> (string \<Rightarrow> PricePoint list)" where
  "buildHistoryMap entries =
     foldl (\<lambda>accumulator (t, points). accumulator(t := points)) (\<lambda>t. []) entries"

text \<open>
  \<^verbatim>\<open>getHistoricalSeries\<close> reads the network; it is a parameter of the model, a function
  of the ticker and the two dates that gives the points or the message of a
  \<^verbatim>\<open>YahooDataError\<close>. The first component of the result lists the tickers it was
  called for, in order.
\<close>

definition runSimulation :: "(string \<Rightarrow> string \<Rightarrow> string \<Rightarrow> string + PricePoint list)
    \<Rightarrow> SimulationRequest \<Rightarrow> string list \<times> (SimError + SimulationResult)" where
  "runSimulation getHistoricalSeries request =
     (let benchmark = toUpperCase (benchmarkTicker request);
          allocs = filter (\<lambda>allocation. weight allocation > 0)
                     (normalizeAllocations (allocations request))
      in if length allocs = 0 then ([], Inl NoPositiveWeightError)
         else
           let tickers = uniqueInOrder (map ticker allocs @ [benchmark]);
               histories =
                 map (\<lambda>t. (t, getHistoricalSeries t (startDate request) (endDate request))) tickers
           in case collectHistories histories of
                Inl message \<Rightarrow> (tickers, Inl (YahooDataError message))
              | Inr entries \<Rightarrow>
                  let historyMap = buildHistoryMap entries;
                      relevantDateLists =
                        map (\<lambda>allocation. map date (historyMap (ticker allocation))) allocs
                          @ [map date (historyMap benchmark)];
                      tradingDays = intersectDates relevantDateLists
                  in if length tradingDays < 2 then (tickers, Inl InsufficientDaysError)
                     else
                       let env =
                             \<lparr>env_request = request,
                              env_allocations = allocs,
                              env_benchmarkTicker = benchmark,
                              env_closeMaps = (\<lambda>t. toCloseMap (historyMap t)),
                              env_adjustedMaps = (\<lambda>t. toAdjustedMap (historyMap t)),
                              env_dividendMaps = (\<lambda>t. toDividendMap (historyMap t)),
                              env_splitMaps = (\<lambda>t. toSplitMap (historyMap t)),
                              env_schedules = buildTradingSchedules tradingDays,
                              env_totalStockWeight = getTotalStockWeight allocs\<rparr>;
                           holdings0 = newMap (map (\<lambda>allocation. (ticker allocation, 0)) allocs);
                           st0 =
                             \<lparr>st_holdings = holdings0, st_cashValue = 0, st_benchmarkShares = 0,
                              st_totalInvested = 0, st_contributions = 0, st_netFlow = 0,
                              st_timeline = []\<rparr>;
                           final = dayLoop env 0 tradingDays st0
                       in (tickers,
                           Inr \<lparr>timeline = st_timeline final,
                                initialPrincipal = initialAmount request,
                                contributions = st_contributions final,
                                totalInvested = st_totalInvested final,
                                endingCash =
                                  (case st_timeline final of
                                     [] \<Rightarrow> 0 | _ \<Rightarrow> cashValue (last (st_timeline final))),
                                endingStockValue =
                                  (case st_timeline final of
                                     [] \<Rightarrow> 0 | _ \<Rightarrow> stockValue (last (st_timeline final)))\<rparr>))"

subsection \<open>Time-weighted daily returns (\<^verbatim>\<open>src/lib/metrics.ts\<close>)\<close>

text \<open>
  \<^verbatim>\<open>calculateTimeWeightedDailyReturns\<close> tests \<^verbatim>\<open>Number.isFinite\<close>, so its numbers
  are modelled with the non-finite values of a double: a real, either infinity, or NaN.
  The arithmetic on the finite values is exact (no rounding, and no overflow to an infinity);
  the zero has no sign, a division of a finite number by zero gives the infinity of the sign of
  the numerator (NaN for 0/0). The function divides by a positive number only.
\<close>

datatype jsnum = Fin real | PosInf | NegInf | NaN

fun jsub :: "jsnum \<Rightarrow> jsnum \<Rightarrow> jsnum" where
  "jsub (Fin a) (Fin b) = Fin (a - b)"
| "jsub NaN _ = NaN"
| "jsub _ NaN = NaN"
| "jsub PosInf PosInf = NaN"
| "jsub NegInf NegInf = NaN"
| "jsub PosInf _ = PosInf"
| "jsub NegInf _ = NegInf"
| "jsub (Fin a) PosInf = NegInf"
| "jsub (Fin a) NegInf = PosInf"

fun jdiv :: "jsnum \<Rightarrow> jsnum \<Rightarrow> jsnum" where
  "jdiv (Fin a) (Fin b) =
     (if b \<noteq> 0 then Fin (a / b)
      else if a = 0 then NaN else if a > 0 then PosInf else NegInf)"
| "jdiv NaN _ = NaN"
| "jdiv _ NaN = NaN"
| "jdiv (Fin a) _ = Fin 0"
| "jdiv PosInf (Fin b) = (if b \<ge> 0 then PosInf else NegInf)"
| "jdiv NegInf (Fin b) = (if b \<ge> 0 then NegInf else PosInf)"
| "jdiv _ _ = NaN"

text \<open>\<^verbatim>\<open>x <= 0\<close>: false for NaN.\<close>

fun jleZero :: "jsnum \<Rightarrow> bool" where
  "jleZero (Fin a) = (a \<le> 0)"
| "jleZero NegInf = True"
| "jleZero _ = False"

fun isFinite :: "jsnum \<Rightarrow> bool" where
  "isFinite (Fin a) = True"
| "isFinite _ = False"

text \<open>\<^verbatim>\<open>netFlows[index] ?? 0\<close>: reading past the end of an array gives \<^verbatim>\<open>undefined\<close>.\<close>

definition flowAt :: "jsnum list \<Rightarrow> nat \<Rightarrow> jsnum" where
  "flowAt netFlows index = (if index < length netFlows then netFlows ! index else Fin 0)"

text \<open>The loop \<^verbatim>\<open>for (index = 1; index < values.length; index += 1)\<close>.\<close>

function twrLoop :: "jsnum list \<Rightarrow> jsnum list \<Rightarrow> nat \<Rightarrow> jsnum list \<Rightarrow> jsnum list" where
  "twrLoop values netFlows index returns =
     (if index < length values
      then
        let previousValue = values ! (index - 1)
        in if jleZero previousValue
           then twrLoop values netFlows (Suc index) (returns @ [Fin 0])
           else
             let flow = flowAt netFlows index;
                 dailyReturn = jdiv (jsub (jsub (values ! index) previousValue) flow) previousValue
             in twrLoop values netFlows (Suc index)
                  (returns @ [if isFinite dailyReturn then dailyReturn else Fin 0])
      else returns)"
  by pat_completeness auto
termination
  by (relation "measure (\<lambda>(values, netFlows, index, returns). length values - index)") auto

declare twrLoop.simps [simp del]

definition calculateTimeWeightedDailyReturns :: "jsnum list \<Rightarrow> jsnum list \<Rightarrow> jsnum list" where
  "calculateTimeWeightedDailyReturns values netFlows = twrLoop values netFlows 1 []"

text \<open>The entry of the spec for day \<open>t\<close>, written from its words.\<close>

definition twrEntry :: "jsnum list \<Rightarrow> jsnum list \<Rightarrow> nat \<Rightarrow> jsnum" where
  "twrEntry V flow t =
     (if jleZero (V ! (t - 1)) then Fin 0
      else
        let q = jdiv (jsub (jsub (V ! t) (V ! (t - 1))) (flowAt flow t)) (V ! (t - 1))
        in if isFinite q then q else Fin 0)"

subsection \<open>Request validation (\<^verbatim>\<open>src/lib/schemas/simulation.ts\<close>)\<close>

text \<open>
  The zod schema. A request of the model has every field (the defaults are applied); the
  literal fields \<^verbatim>\<open>rebalanceFrequency\<close> and \<^verbatim>\<open>contributionRule\<close> have one value
  each and are left out; \<^verbatim>\<open>dividendPolicy\<close> is of its enumeration by its type.
  \<^verbatim>\<open>trim\<close> removes the white space of ASCII at both ends.
\<close>

definition isSpace :: "char \<Rightarrow> bool" where
  "isSpace c = List.member [CHR 0x20, CHR 0x09, CHR 0x0A, CHR 0x0B, CHR 0x0C, CHR 0x0D] c"

definition trim :: "string \<Rightarrow> string" where
  "trim s = rev (dropWhile isSpace (rev (dropWhile isSpace s)))"

definition allocationSchema_ok :: "AllocationInput \<Rightarrow> bool" where
  "allocationSchema_ok a =
     (1 \<le> length (trim (in_ticker a)) \<and> length (trim (in_ticker a)) \<le> 10
      \<and> 0 \<le> targetWeight a \<and> targetWeight a \<le> 100
      \<and> 0 \<le> in_expenseRatio a \<and> in_expenseRatio a \<le> 5 / 100)"

text \<open>The object schema, before \<^verbatim>\<open>superRefine\<close>.\<close>

definition baseSchema_ok :: "SimulationRequest \<Rightarrow> bool" where
  "baseSchema_ok value =
     (isoDateRegex (startDate value) \<and> isoDateRegex (endDate value)
      \<and> 0 \<le> initialAmount value
      \<and> 0 \<le> monthlySalary value
      \<and> 0 \<le> monthlyContribution value
      \<and> 0 \<le> minimumCashReserve value
      \<and> list_all allocationSchema_ok (allocations value)
      \<and> 1 \<le> length (allocations value) \<and> length (allocations value) \<le> 10
      \<and> 1 \<le> length (trim (benchmarkTicker value)) \<and> length (trim (benchmarkTicker value)) \<le> 10
      \<and> 0 \<le> riskFreeRate value \<and> riskFreeRate value \<le> 2 / 10)"

text \<open>The value \<^verbatim>\<open>superRefine\<close> sees: the tickers are trimmed.\<close>

definition parsedRequest :: "SimulationRequest \<Rightarrow> SimulationRequest" where
  "parsedRequest value =
     value\<lparr>allocations := map (\<lambda>a. a\<lparr>in_ticker := trim (in_ticker a)\<rparr>) (allocations value),
           benchmarkTicker := trim (benchmarkTicker value)\<rparr>"

text \<open>
  \<^verbatim>\<open>start >= end\<close> on the times of two dates: the order of year, month and day.
  An Invalid Date has the time NaN.
\<close>

definition startNotBeforeEnd :: "string \<Rightarrow> string \<Rightarrow> bool" where
  "startNotBeforeEnd s e =
     (case (toUtcDate s, toUtcDate e) of
        (Some a, Some b) \<Rightarrow>
          \<not> (utcFullYear a < utcFullYear b
             \<or> (utcFullYear a = utcFullYear b
                 \<and> (utcMonth a < utcMonth b \<or> (utcMonth a = utcMonth b \<and> utcDay a < utcDay b))))
      | _ \<Rightarrow> True)"

definition totalTargetWeight :: "AllocationInput list \<Rightarrow> real" where
  "totalTargetWeight allocs = foldl (\<lambda>sum item. sum + targetWeight item) 0 allocs"

definition superRefineIssues :: "SimulationRequest \<Rightarrow> string list" where
  "superRefineIssues value =
     (let totalWeight = totalTargetWeight (allocations value);
          uniqueTickerCount =
            length (uniqueInOrder (map (\<lambda>allocation. toUpperCase (in_ticker allocation))
                                     (allocations value)))
      in (if startNotBeforeEnd (startDate value) (endDate value)
          then [''endDate must be after startDate''] else [])
       @ (if totalWeight \<le> 5 / 100
          then [''Allocation weights must include at least one positive weight''] else [])
       @ (if totalWeight > 10005 / 100
          then [''Allocation weights must be less than or equal to 100%''] else [])
       @ (if uniqueTickerCount \<noteq> length (allocations value)
          then [''Allocation tickers must be unique''] else []))"

text \<open>\<^verbatim>\<open>simulationRequestSchema.parse\<close> succeeds when there is no issue.\<close>

definition simulationRequestSchema_ok :: "SimulationRequest \<Rightarrow> bool" where
  "simulationRequestSchema_ok value =
     (baseSchema_ok value \<and> superRefineIssues (parsedRequest value) = [])"

subsection \<open>Notions the claims use\<close>

text \<open>The close of an allocation's ticker on a day (0 when there is none).\<close>

definition priceAt :: "(string \<Rightarrow> (string \<rightharpoonup> real)) \<Rightarrow> string \<Rightarrow> NormalizedAllocation \<Rightarrow> real" where
  "priceAt closeMaps day a = orZero (closeMaps (ticker a) day)"

text \<open>The value of an allocation's position on a day: held shares times the close.\<close>

definition positionValue :: "(string \<rightharpoonup> real) \<Rightarrow> (string \<Rightarrow> (string \<rightharpoonup> real)) \<Rightarrow> string
    \<Rightarrow> NormalizedAllocation \<Rightarrow> real" where
  "positionValue holdings closeMaps day a = orZero (holdings (ticker a)) * priceAt closeMaps day a"

subsection \<open>The parts of \<^verbatim>\<open>runSimulation\<close>, named\<close>

text \<open>
  The expressions of \<^verbatim>\<open>runSimulation\<close> that the claims speak about, each as the source
  computes it: the allocations that pass the filter \<^verbatim>\<open>weight > 0\<close>, the tickers fetched,
  the points fetched for a ticker, the history map, the trading days, and the environment
  and the first state of the day loop.
\<close>

definition eligibleAllocations :: "SimulationRequest \<Rightarrow> NormalizedAllocation list" where
  "eligibleAllocations request =
     filter (\<lambda>allocation. weight allocation > 0) (normalizeAllocations (allocations request))"

definition simTickers :: "SimulationRequest \<Rightarrow> string list" where
  "simTickers request =
     uniqueInOrder (map ticker (eligibleAllocations request) @ [toUpperCase (benchmarkTicker request)])"

definition seriesOf :: "(string \<Rightarrow> string \<Rightarrow> string \<Rightarrow> string + PricePoint list)
    \<Rightarrow> SimulationRequest \<Rightarrow> string \<Rightarrow> PricePoint list" where
  "seriesOf getHistoricalSeries request t =
     (case getHistoricalSeries t (startDate request) (endDate request) of
        Inl message \<Rightarrow> []
      | Inr points \<Rightarrow> points)"

definition fetchSucceeds :: "(string \<Rightarrow> string \<Rightarrow> string \<Rightarrow> string + PricePoint list)
    \<Rightarrow> SimulationRequest \<Rightarrow> string \<Rightarrow> bool" where
  "fetchSucceeds getHistoricalSeries request t =
     (case getHistoricalSeries t (startDate request) (endDate request) of
        Inl message \<Rightarrow> False
      | Inr points \<Rightarrow> True)"

definition historyMapOf :: "(string \<Rightarrow> string \<Rightarrow> string \<Rightarrow> string + PricePoint list)
    \<Rightarrow> SimulationRequest \<Rightarrow> (string \<Rightarrow> PricePoint list)" where
  "historyMapOf getHistoricalSeries request =
     buildHistoryMap (map (\<lambda>t. (t, seriesOf getHistoricalSeries request t)) (simTickers request))"

definition tradingDaysOf :: "(string \<Rightarrow> string \<Rightarrow> string \<Rightarrow> string + PricePoint list)
    \<Rightarrow> SimulationRequest \<Rightarrow> string list" where
  "tradingDaysOf getHistoricalSeries request =
     intersectDates
       (map (\<lambda>allocation. map date (historyMapOf getHistoricalSeries request (ticker allocation)))
          (eligibleAllocations request)
        @ [map date (historyMapOf getHistoricalSeries request
                       (toUpperCase (benchmarkTicker request)))])"

definition simEnv :: "(string \<Rightarrow> string \<Rightarrow> string \<Rightarrow> string + PricePoint list)
    \<Rightarrow> SimulationRequest \<Rightarrow> SimEnv" where
  "simEnv getHistoricalSeries request =
     \<lparr>env_request = request,
      env_allocations = eligibleAllocations request,
      env_benchmarkTicker = toUpperCase (benchmarkTicker request),
      env_closeMaps = (\<lambda>t. toCloseMap (historyMapOf getHistoricalSeries request t)),
      env_adjustedMaps = (\<lambda>t. toAdjustedMap (historyMapOf getHistoricalSeries request t)),
      env_dividendMaps = (\<lambda>t. toDividendMap (historyMapOf getHistoricalSeries request t)),
      env_splitMaps = (\<lambda>t. toSplitMap (historyMapOf getHistoricalSeries request t)),
      env_schedules = buildTradingSchedules (tradingDaysOf getHistoricalSeries request),
      env_totalStockWeight = getTotalStockWeight (eligibleAllocations request)\<rparr>"

definition initialState :: "SimulationRequest \<Rightarrow> SimState" where
  "initialState request =
     \<lparr>st_holdings = newMap (map (\<lambda>allocation. (ticker allocation, 0)) (eligibleAllocations request)),
      st_cashValue = 0, st_benchmarkShares = 0, st_totalInvested = 0, st_contributions = 0,
      st_netFlow = 0, st_timeline = []\<rparr>"

definition resultOf :: "SimulationRequest \<Rightarrow> SimState \<Rightarrow> SimulationResult" where
  "resultOf request final =
     \<lparr>timeline = st_timeline final,
      initialPrincipal = initialAmount request,
      contributions = st_contributions final,
      totalInvested = st_totalInvested final,
      endingCash = (case st_timeline final of [] \<Rightarrow> 0 | _ \<Rightarrow> cashValue (last (st_timeline final))),
      endingStockValue =
        (case st_timeline final of [] \<Rightarrow> 0 | _ \<Rightarrow> stockValue (last (st_timeline final)))\<rparr>"

text \<open>
  The overlapping trading days in the words of the spec: the dates that the series of every
  allocation of positive weight and the series of the benchmark share, sorted ascending.
\<close>

definition overlappingDays :: "(string \<Rightarrow> string \<Rightarrow> string \<Rightarrow> string + PricePoint list)
    \<Rightarrow> SimulationRequest \<Rightarrow> string list" where
  "overlappingDays getHistoricalSeries request =
     sorted_list_of_set
       ((\<Inter>allocation \<in> set (eligibleAllocations request).
            set (map date (seriesOf getHistoricalSeries request (ticker allocation))))
        \<inter> set (map date (seriesOf getHistoricalSeries request
                              (toUpperCase (benchmarkTicker request)))))"

subsection \<open>Concrete inputs\<close>

text \<open>Two allocations of one half each, as the normalised allocations of a 50/50 request.\<close>

definition exAllocations :: "NormalizedAllocation list" where
  "exAllocations =
     [\<lparr>ticker = ''SPY'', weight = 1 / 2, expenseRatio = 0\<rparr>,
      \<lparr>ticker = ''QQQ'', weight = 1 / 2, expenseRatio = 0\<rparr>]"

text \<open>A day on which SPY closes at 100 and QQQ has no price.\<close>

definition exCloseMapsOnePriced :: "string \<Rightarrow> (string \<rightharpoonup> real)" where
  "exCloseMapsOnePriced t = (if t = ''SPY'' then [''2024-04-01'' \<mapsto> 100] else Map.empty)"

definition exHoldings :: "string \<rightharpoonup> real" where
  "exHoldings = [''SPY'' \<mapsto> 6, ''QQQ'' \<mapsto> 1]"

text \<open>
  A day on which SPY closes at 100 and QQQ at -100, with 2.5 shares of each held: what a run
  holds that started with 1000, a reserve of 500 and both closes at 100.
\<close>

definition cexCloseMaps :: "string \<Rightarrow> (string \<rightharpoonup> real)" where
  "cexCloseMaps t =
     (if t = ''SPY'' then [''2024-04-01'' \<mapsto> 100]
      else if t = ''QQQ'' then [''2024-04-01'' \<mapsto> - 100]
      else Map.empty)"

definition cexHoldings :: "string \<rightharpoonup> real" where
  "cexHoldings = [''SPY'' \<mapsto> 5 / 2, ''QQQ'' \<mapsto> 5 / 2]"

text \<open>A price point without dividend or split, its adjusted close equal to its close.\<close>

definition plainPoint :: "string \<Rightarrow> real \<Rightarrow> PricePoint" where
  "plainPoint d c =
     \<lparr>date = d, close = c, adjustedClose = c, dividendPerShare = 0, splitRatio = 1\<rparr>"

text \<open>
  A request for 100% of one asset, itself the benchmark, beside an allocation of weight 0:
  1000 at the start, no salary, no monthly contribution, no reserve.
\<close>

definition exRequest :: SimulationRequest where
  "exRequest =
     \<lparr>startDate = ''2024-01-02'', endDate = ''2024-01-05'',
      initialAmount = 1000, monthlySalary = 0, monthlyContribution = 0, minimumCashReserve = 0,
      dividendPolicy = reinvest_same_asset,
      allocations =
        [\<lparr>in_ticker = ''aaa'', targetWeight = 100, in_expenseRatio = 0\<rparr>,
         \<lparr>in_ticker = ''bbb'', targetWeight = 0, in_expenseRatio = 0\<rparr>],
      benchmarkTicker = ''aaa'', riskFreeRate = 2 / 100\<rparr>"

text \<open>The same request with no positive weight.\<close>

definition zeroWeightRequest :: SimulationRequest where
  "zeroWeightRequest =
     exRequest\<lparr>allocations := [\<lparr>in_ticker = ''aaa'', targetWeight = 0, in_expenseRatio = 0\<rparr>]\<rparr>"

text \<open>A market that fails for every ticker.\<close>

definition failingMarket :: "string \<Rightarrow> string \<Rightarrow> string \<Rightarrow> string + PricePoint list" where
  "failingMarket t s e = Inl ''upstream failure''"

text \<open>A market with three rising closes of AAA.\<close>

definition exMarket :: "string \<Rightarrow> string \<Rightarrow> string \<Rightarrow> string + PricePoint list" where
  "exMarket t s e =
     (if t = ''AAA''
      then Inr [plainPoint ''2024-01-02'' 100, plainPoint ''2024-01-03'' 110,
                plainPoint ''2024-01-04'' 120]
      else Inl ''No data'')"

text \<open>
  A market in which AAA closes at 100, then at -50, then at 100, and BBB, the allocation of
  weight 0, has the first two days only.
\<close>

definition cexMarket :: "string \<Rightarrow> string \<Rightarrow> string \<Rightarrow> string + PricePoint list" where
  "cexMarket t s e =
     (if t = ''AAA''
      then Inr [plainPoint ''2024-01-02'' 100, plainPoint ''2024-01-03'' (- 50),
                plainPoint ''2024-01-04'' 100]
      else if t = ''BBB''
      then Inr [plainPoint ''2024-01-02'' 30, plainPoint ''2024-01-03'' 31]
      else Inl ''No data'')"

text \<open>
  A market in which two tickers share a single day: AAA and SPY have the second and the third
  of January, BBB and QQQ the third and the fourth.
\<close>

definition oneSharedDayMarket :: "string \<Rightarrow> string \<Rightarrow> string \<Rightarrow> string + PricePoint list" where
  "oneSharedDayMarket t s e =
     (if t = ''AAA'' \<or> t = ''SPY''
      then Inr [plainPoint ''2024-01-02'' 100, plainPoint ''2024-01-03'' 110]
      else if t = ''BBB'' \<or> t = ''QQQ''
      then Inr [plainPoint ''2024-01-03'' 30, plainPoint ''2024-01-04'' 31]
      else Inl ''No data'')"

text \<open>A market whose series of AAA has two points of one date.\<close>

definition repeatedDayMarket :: "string \<Rightarrow> string \<Rightarrow> string \<Rightarrow> string + PricePoint list" where
  "repeatedDayMarket t s e =
     (if t = ''AAA''
      then Inr [plainPoint ''2024-01-02'' 100, plainPoint ''2024-01-02'' 100]
      else Inl ''No data'')"

text \<open>
  The valid payload of \<^verbatim>\<open>route.test.ts\<close>, its two target weights left open.
\<close>

definition payloadWithWeights :: "real \<Rightarrow> real \<Rightarrow> SimulationRequest" where
  "payloadWithWeights w1 w2 =
     \<lparr>startDate = ''2024-01-02'', endDate = ''2024-01-05'',
      initialAmount = 10000, monthlySalary = 2500000, monthlyContribution = 300,
      minimumCashReserve = 500, dividendPolicy = reinvest_same_asset,
      allocations =
        [\<lparr>in_ticker = ''SPY'', targetWeight = w1, in_expenseRatio = 9 / 10000\<rparr>,
         \<lparr>in_ticker = ''QQQ'', targetWeight = w2, in_expenseRatio = 2 / 1000\<rparr>],
      benchmarkTicker = ''SPY'', riskFreeRate = 2 / 100\<rparr>"

section \<open>Theorems\<close>

subsection \<open>C4: the investable budget is a clamp\<close>

text \<open>
  Claim C4. For every portfolio value \<open>P\<close>, total target stock weight \<open>W\<close> and requested
  minimum reserve \<open>R \<ge> 0\<close>, the investable stock budget equals
  \<open>clamp (P * W) 0 (max 0 (P - min R P))\<close>; it is 0 whenever \<open>P \<le> 0\<close> or \<open>W \<le> 0\<close>, and it
  never exceeds \<open>P - min R P\<close>.
\<close>

theorem C4_budget_is_clamp:
  assumes "0 \<le> R"
  shows "computeDesiredStockBudget P W R = clampNumber (P * W) 0 (max 0 (P - min R P))
       \<and> (P \<le> 0 \<or> W \<le> 0 \<longrightarrow> computeDesiredStockBudget P W R = 0)
       \<and> computeDesiredStockBudget P W R \<le> P - min R P"
proof -
  have zero: "computeDesiredStockBudget P W R = 0" if "P \<le> 0 \<or> W \<le> 0"
    using that by (simp add: computeDesiredStockBudget_def)
  have clamp: "computeDesiredStockBudget P W R = clampNumber (P * W) 0 (max 0 (P - min R P))"
  proof (cases "P \<le> 0 \<or> W \<le> 0")
    case True
    have "clampNumber (P * W) 0 (max 0 (P - min R P)) = 0"
    proof (cases "P \<le> 0")
      case True
      with assms have "min R P = P" by simp
      then show ?thesis by (simp add: clampNumber_def)
    next
      case False
      with True have "W \<le> 0" "0 < P" by auto
      then have "P * W \<le> 0" by (simp add: mult_le_0_iff)
      then show ?thesis by (simp add: clampNumber_def min_def max_def)
    qed
    with zero [OF True] show ?thesis by simp
  next
    case False
    then show ?thesis
      by (simp add: computeDesiredStockBudget_def clampNumber_def Let_def min.commute)
  qed
  have bound: "computeDesiredStockBudget P W R \<le> P - min R P"
  proof -
    have "0 \<le> P - min R P" by simp
    then show ?thesis
      by (auto simp add: computeDesiredStockBudget_def Let_def min_def max_def)
  qed
  from clamp zero bound show ?thesis by blast
qed

theorem C4_budget_is_clamp_witness:
  "(0::real) \<le> 500
   \<and> computeDesiredStockBudget 1000 1 500 = clampNumber (1000 * 1) 0 (max 0 (1000 - min 500 1000))
   \<and> computeDesiredStockBudget 1000 1 500 = 500"
  using C4_budget_is_clamp [of 500 1000 1]
  by (simp add: clampNumber_def)

subsection \<open>C5 and C10: the trading schedules\<close>

lemma digitVal_digitChar: "n < 10 \<Longrightarrow> digitVal (digitChar n) = n"
proof -
  assume "n < 10"
  then have "n \<in> {0,1,2,3,4,5,6,7,8,9}" by auto
  then show ?thesis
    by (auto simp add: digitVal_def digitChar_def)
qed

lemma isDigit_digitChar: "n < 10 \<Longrightarrow> isDigit (digitChar n)"
proof -
  assume "n < 10"
  then have "n \<in> {0,1,2,3,4,5,6,7,8,9}" by auto
  then show ?thesis
    by (auto simp add: isDigit_def digitChar_def)
qed

lemma parseNat_snoc: "parseNat (s @ [c]) = 10 * parseNat s + digitVal c"
  by (simp add: parseNat_def)

lemma parseNat_showNat: "parseNat (showNat n) = n"
proof (induction n rule: showNat.induct)
  case (1 n)
  show ?case
  proof (cases "n < 10")
    case True
    then show ?thesis
      by (simp add: showNat.simps [of n] parseNat_def digitVal_digitChar)
  next
    case False
    with 1 have "parseNat (showNat (n div 10)) = n div 10" by simp
    with False show ?thesis
      by (simp add: showNat.simps [of n] parseNat_snoc digitVal_digitChar)
  qed
qed

lemma showNat_inj: "showNat a = showNat b \<Longrightarrow> a = b"
  by (metis parseNat_showNat)

lemma showNat_digits: "\<forall>c \<in> set (showNat n). isDigit c"
proof (induction n rule: showNat.induct)
  case (1 n)
  show ?case
  proof (cases "n < 10")
    case True
    then show ?thesis by (simp add: showNat.simps [of n] isDigit_digitChar)
  next
    case False
    with 1 have "\<forall>c \<in> set (showNat (n div 10)). isDigit c" by simp
    with False show ?thesis
      by (simp add: showNat.simps [of n] isDigit_digitChar)
  qed
qed

lemma hyphen_not_digit: "\<not> isDigit CHR ''-''"
  by (simp add: isDigit_def)

lemma sep_append_inj:
  assumes "x \<notin> set a" "x \<notin> set a'" "a @ x # b = a' @ x # b'"
  shows "a = a' \<and> b = b'"
proof -
  have tw: "takeWhile (\<lambda>c. c \<noteq> x) (u @ x # v) = u" if "x \<notin> set u" for u v
    using that by (induction u) auto
  have "takeWhile (\<lambda>c. c \<noteq> x) (a @ x # b) = a" using assms(1) by (rule tw)
  moreover have "takeWhile (\<lambda>c. c \<noteq> x) (a' @ x # b') = a'" using assms(2) by (rule tw)
  ultimately have "a = a'" using assms(3) by simp
  with assms(3) show ?thesis by simp
qed

lemma monthKey_calendar:
  "isCalendarDate d \<Longrightarrow>
   monthKey d = showNat (parseNat (take 4 d)) @ ''-'' @ showNat (parseNat (take 2 (drop 5 d)) - 1)"
  by (simp add: monthKey_def toUtcDate_def getUTCFullYear_def getUTCMonth_def showNumber_def)

lemma yearMonth_calendar:
  "isCalendarDate d \<Longrightarrow>
   yearMonth d = Some (parseNat (take 4 d), parseNat (take 2 (drop 5 d)) - 1)"
  by (simp add: yearMonth_def toUtcDate_def)

lemma monthKey_eq_iff:
  assumes "isCalendarDate d" "isCalendarDate d'"
  shows "monthKey d = monthKey d' \<longleftrightarrow> yearMonth d = yearMonth d'"
proof
  assume eq: "monthKey d = monthKey d'"
  have nd: "CHR ''-'' \<notin> set (showNat n)" for n
    using showNat_digits [of n] hyphen_not_digit by blast
  from eq have "showNat (parseNat (take 4 d)) @ CHR ''-'' # showNat (parseNat (take 2 (drop 5 d)) - 1)
     = showNat (parseNat (take 4 d')) @ CHR ''-'' # showNat (parseNat (take 2 (drop 5 d')) - 1)"
    by (simp add: monthKey_calendar assms)
  from sep_append_inj [OF nd nd this] show "yearMonth d = yearMonth d'"
    by (auto simp add: yearMonth_calendar assms dest: showNat_inj)
next
  assume "yearMonth d = yearMonth d'"
  then show "monthKey d = monthKey d'"
    by (simp add: yearMonth_calendar monthKey_calendar assms)
qed

lemma monthKey_nonempty: "monthKey d \<noteq> []"
  by (simp add: monthKey_def Let_def)

text \<open>After a day has been scanned, the current key is that day's key.\<close>

lemma scheduleLoop_Cons:
  "scheduleLoop (day # rest) (cds, rds, cur) =
     scheduleLoop rest
       ((if monthKey day \<noteq> cur then insert day cds else cds),
        (if monthKey day \<noteq> cur \<and> isQuarterStartDay day then insert day rds else rds),
        monthKey day)"
  by simp

lemma scheduleLoop_contribution:
  "fst (scheduleLoop xs (cds, rds, cur)) =
     cds \<union> {d. \<exists>k. (d, k) \<in> set (zip xs (cur # map monthKey xs)) \<and> monthKey d \<noteq> k}"
proof (induction xs arbitrary: cds rds cur)
  case Nil
  then show ?case by simp
next
  case (Cons day rest)
  show ?case
    unfolding scheduleLoop_Cons Cons.IH
    by auto
qed

lemma scheduleLoop_rebalance:
  "fst (snd (scheduleLoop xs (cds, rds, cur))) =
     rds \<union> {d. \<exists>k. (d, k) \<in> set (zip xs (cur # map monthKey xs)) \<and> monthKey d \<noteq> k
                 \<and> isQuarterStartDay d}"
proof (induction xs arbitrary: cds rds cur)
  case Nil
  then show ?case by simp
next
  case (Cons day rest)
  show ?case
    unfolding scheduleLoop_Cons Cons.IH
    by auto
qed

lemma zip_prev_index:
  "(d, k) \<in> set (zip xs (cur # map monthKey xs)) \<longleftrightarrow>
     (\<exists>i < length xs. d = xs ! i \<and> k = (if i = 0 then cur else monthKey (xs ! (i - 1))))"
proof -
  have "(d, k) \<in> set (zip xs (cur # map monthKey xs)) \<longleftrightarrow>
     (\<exists>i < length xs. d = xs ! i \<and> k = (cur # map monthKey xs) ! i)"
    by (auto simp add: set_zip)
  also have "\<dots> \<longleftrightarrow> (\<exists>i < length xs. d = xs ! i \<and> k = (if i = 0 then cur else monthKey (xs ! (i - 1))))"
    by (rule ex_cong) (auto simp add: nth_Cons')
  finally show ?thesis .
qed

lemmas cal_defs = monthKey_def toUtcDate_def isCalendarDate_def parseNat_def digitVal_def
  isDigit_def daysInMonth_def isLeapYear_def getUTCFullYear_def getUTCMonth_def showNumber_def
  isQuarterStartDay_def isQuarterStartMonth_def digitChar_def yearMonth_def

lemma isQuarterStartDay_yearMonth:
  "isQuarterStartDay d \<longleftrightarrow> (\<exists>y m. yearMonth d = Some (y, m) \<and> m \<in> {0, 3, 6, 9})"
  by (cases "toUtcDate d")
     (auto simp add: isQuarterStartDay_def yearMonth_def getUTCMonth_def isQuarterStartMonth_def)

lemma contributionDays_zip:
  "contributionDays (buildTradingSchedules days) =
     {d. \<exists>k. (d, k) \<in> set (zip (sortIsoDates days) ([] # map monthKey (sortIsoDates days)))
            \<and> monthKey d \<noteq> k}"
  by (simp add: buildTradingSchedules_def Let_def scheduleLoop_contribution)

lemma rebalanceDays_zip:
  "rebalanceDays (buildTradingSchedules days) =
     {d. \<exists>k. (d, k) \<in> set (zip (sortIsoDates days) ([] # map monthKey (sortIsoDates days)))
            \<and> monthKey d \<noteq> k \<and> isQuarterStartDay d}"
  by (simp add: buildTradingSchedules_def Let_def scheduleLoop_rebalance)

lemma contributionDays_index:
  assumes "\<forall>d \<in> set days. isCalendarDate d"
  shows "contributionDays (buildTradingSchedules days) =
     {sortIsoDates days ! i | i. i < length (sortIsoDates days)
        \<and> (i = 0 \<or> yearMonth (sortIsoDates days ! i) \<noteq> yearMonth (sortIsoDates days ! (i - 1)))}"
proof -
  let ?xs = "sortIsoDates days"
  have cal: "isCalendarDate (?xs ! i)" if "i < length ?xs" for i
  proof -
    from that have "?xs ! i \<in> set ?xs" by (rule nth_mem)
    then show ?thesis using assms by (simp add: sortIsoDates_def)
  qed
  have step: "monthKey (?xs ! i) \<noteq> (if i = 0 then [] else monthKey (?xs ! (i - 1)))
      \<longleftrightarrow> (i = 0 \<or> yearMonth (?xs ! i) \<noteq> yearMonth (?xs ! (i - 1)))"
    if "i < length ?xs" for i
  proof (cases "i = 0")
    case True
    then show ?thesis by (simp add: monthKey_nonempty)
  next
    case False
    with that have "i - 1 < length ?xs" by simp
    with that False show ?thesis
      by (simp add: monthKey_eq_iff cal)
  qed
  have "contributionDays (buildTradingSchedules days) =
      {d. \<exists>i < length ?xs. d = ?xs ! i
          \<and> monthKey (?xs ! i) \<noteq> (if i = 0 then [] else monthKey (?xs ! (i - 1)))}"
    unfolding contributionDays_zip zip_prev_index by blast
  also have "\<dots> = {d. \<exists>i < length ?xs. d = ?xs ! i
          \<and> (i = 0 \<or> yearMonth (?xs ! i) \<noteq> yearMonth (?xs ! (i - 1)))}"
    using step by blast
  also have "\<dots> = {?xs ! i | i. i < length ?xs
        \<and> (i = 0 \<or> yearMonth (?xs ! i) \<noteq> yearMonth (?xs ! (i - 1)))}"
    by blast
  finally show ?thesis .
qed

text \<open>The order of the dates agrees with the order of their years and months.\<close>

lemma append_le_same_length:
  "length a = length a' \<Longrightarrow> (a @ b \<le> a' @ b' \<longleftrightarrow> a < a' \<or> (a = a' \<and> b \<le> b'))"
  for a a' b b' :: string
  by (induction a a' rule: list_induct2) auto

lemma parseNat_foldl:
  "foldl (\<lambda>n c. 10 * n + digitVal c) n cs = n * 10 ^ length cs + parseNat cs"
proof (induction cs arbitrary: n)
  case Nil
  then show ?case by (simp add: parseNat_def)
next
  case (Cons c cs)
  have "parseNat (c # cs) = foldl (\<lambda>n c. 10 * n + digitVal c) (digitVal c) cs"
    by (simp add: parseNat_def)
  also have "\<dots> = digitVal c * 10 ^ length cs + parseNat cs" by (rule Cons.IH)
  finally have pc: "parseNat (c # cs) = digitVal c * 10 ^ length cs + parseNat cs" .
  have "foldl (\<lambda>n c. 10 * n + digitVal c) n (c # cs)
      = foldl (\<lambda>n c. 10 * n + digitVal c) (10 * n + digitVal c) cs" by simp
  also have "\<dots> = (10 * n + digitVal c) * 10 ^ length cs + parseNat cs" by (rule Cons.IH)
  finally show ?case by (simp add: pc algebra_simps)
qed

lemma parseNat_Cons: "parseNat (c # cs) = digitVal c * 10 ^ length cs + parseNat cs"
  using parseNat_foldl [of "digitVal c" cs] by (simp add: parseNat_def)

lemma digitVal_less_10: "isDigit c \<Longrightarrow> digitVal c < 10"
  unfolding isDigit_def digitVal_def less_eq_char_def by simp arith

lemma digitVal_mono: "isDigit c \<Longrightarrow> isDigit c' \<Longrightarrow> c < c' \<Longrightarrow> digitVal c < digitVal c'"
  unfolding isDigit_def digitVal_def less_eq_char_def less_char_def by simp

lemma parseNat_bound: "list_all isDigit cs \<Longrightarrow> parseNat cs < 10 ^ length cs"
proof (induction cs)
  case Nil
  then show ?case by (simp add: parseNat_def)
next
  case (Cons c cs)
  then have "digitVal c < 10" "parseNat cs < 10 ^ length cs"
    by (simp_all add: digitVal_less_10)
  then have "digitVal c * 10 ^ length cs + parseNat cs < (digitVal c + 1) * 10 ^ length cs"
    by simp
  also from \<open>digitVal c < 10\<close> have "\<dots> \<le> 10 * 10 ^ length cs"
    by (intro mult_right_mono) simp_all
  finally show ?case by (simp add: parseNat_Cons)
qed

lemma parseNat_strict_mono:
  "length xs = length ys \<Longrightarrow> list_all isDigit xs \<Longrightarrow> list_all isDigit ys \<Longrightarrow> xs < ys \<Longrightarrow>
   parseNat xs < parseNat ys"
proof (induction xs ys rule: list_induct2)
  case Nil
  then show ?case by simp
next
  case (Cons x xs y ys)
  from Cons.prems have d: "isDigit x" "isDigit y" "list_all isDigit xs" "list_all isDigit ys"
    by simp_all
  from Cons.prems(3) consider (head) "x < y" | (tail) "x = y" "xs < ys" by auto
  then show ?case
  proof cases
    case head
    from digitVal_mono [OF d(1) d(2) head] have "digitVal x + 1 \<le> digitVal y" by simp
    then have "(digitVal x + 1) * 10 ^ length xs \<le> digitVal y * 10 ^ length xs"
      by (rule mult_right_mono) simp
    moreover from parseNat_bound [OF d(3)]
    have "digitVal x * 10 ^ length xs + parseNat xs < (digitVal x + 1) * 10 ^ length xs"
      by simp
    ultimately show ?thesis using Cons.hyps by (simp add: parseNat_Cons)
  next
    case tail
    from Cons.IH [OF d(3) d(4) tail(2)] tail(1) Cons.hyps show ?thesis
      by (simp add: parseNat_Cons)
  qed
qed

lemma calendar_shape:
  assumes "isCalendarDate d"
  shows "d = take 4 d @ CHR ''-'' # take 2 (drop 5 d) @ CHR ''-'' # drop 8 d
       \<and> length (take 4 d) = 4 \<and> list_all isDigit (take 4 d)
       \<and> length (take 2 (drop 5 d)) = 2 \<and> list_all isDigit (take 2 (drop 5 d))"
proof -
  from assms have "isoDateRegex d" by (simp add: isCalendarDate_def)
  then show ?thesis by (rule isoDateRegex.elims) simp_all
qed

lemma calendar_month_pos: "isCalendarDate d \<Longrightarrow> 1 \<le> parseNat (take 2 (drop 5 d))"
  by (simp add: isCalendarDate_def)

lemma calendar_order:
  assumes "isCalendarDate d" "isCalendarDate d'" "d \<le> d'"
  shows "parseNat (take 4 d) < parseNat (take 4 d')
       \<or> (parseNat (take 4 d) = parseNat (take 4 d')
           \<and> parseNat (take 2 (drop 5 d)) \<le> parseNat (take 2 (drop 5 d')))"
proof -
  let ?y = "take 4 d" and ?y' = "take 4 d'"
  let ?m = "take 2 (drop 5 d)" and ?m' = "take 2 (drop 5 d')"
  note s = calendar_shape [OF assms(1)] and s' = calendar_shape [OF assms(2)]
  from s s' assms(3)
  have "?y @ CHR ''-'' # ?m @ CHR ''-'' # drop 8 d \<le> ?y' @ CHR ''-'' # ?m' @ CHR ''-'' # drop 8 d'"
    by metis
  moreover from s s' have ly: "length ?y = length ?y'" by metis
  ultimately have "?y < ?y' \<or> (?y = ?y'
      \<and> CHR ''-'' # ?m @ CHR ''-'' # drop 8 d \<le> CHR ''-'' # ?m' @ CHR ''-'' # drop 8 d')"
    by (simp only: append_le_same_length)
  then consider (year) "?y < ?y'"
    | (month) "?y = ?y'" "?m @ CHR ''-'' # drop 8 d \<le> ?m' @ CHR ''-'' # drop 8 d'"
    by auto
  then show ?thesis
  proof cases
    case year
    from s s' have "list_all isDigit ?y" "list_all isDigit ?y'" by metis+
    from parseNat_strict_mono [OF ly this year] show ?thesis by simp
  next
    case month
    from s s' have lm: "length ?m = length ?m'" by metis
    from s s' have dm: "list_all isDigit ?m" "list_all isDigit ?m'" by metis+
    from month(2) lm have "?m < ?m' \<or> ?m = ?m'"
      by (simp only: append_le_same_length) blast
    then have "parseNat ?m \<le> parseNat ?m'"
      using parseNat_strict_mono [OF lm dm] by (auto simp add: less_imp_le)
    with month(1) show ?thesis by simp
  qed
qed

lemma yearMonth_between:
  assumes "isCalendarDate a" "isCalendarDate b" "isCalendarDate c"
    and "a \<le> b" "b \<le> c" "yearMonth a = yearMonth c"
  shows "yearMonth b = yearMonth a"
proof -
  from assms(6) assms(1,3) calendar_month_pos [OF assms(1)] calendar_month_pos [OF assms(3)]
  have eq: "parseNat (take 4 a) = parseNat (take 4 c)"
      "parseNat (take 2 (drop 5 a)) = parseNat (take 2 (drop 5 c))"
    by (auto simp add: yearMonth_calendar)
  from calendar_order [OF assms(1,2,4)] calendar_order [OF assms(2,3,5)] eq
  have "parseNat (take 4 b) = parseNat (take 4 a)
      \<and> parseNat (take 2 (drop 5 b)) = parseNat (take 2 (drop 5 a))"
    by linarith
  then show ?thesis by (simp add: yearMonth_calendar assms(1) assms(2))
qed

lemma first_of_month:
  assumes cal: "\<forall>d \<in> set xs. isCalendarDate d" and srt: "sorted xs"
  shows "{xs ! i | i. i < length xs \<and> (i = 0 \<or> yearMonth (xs ! i) \<noteq> yearMonth (xs ! (i - 1)))}
       = {d \<in> set xs. \<forall>e \<in> set xs. yearMonth e = yearMonth d \<longrightarrow> d \<le> e}"
    (is "?marked = ?first")
proof (intro equalityI subsetI)
  fix d assume "d \<in> ?marked"
  then obtain i where i: "i < length xs" "d = xs ! i"
    and new: "i = 0 \<or> yearMonth (xs ! i) \<noteq> yearMonth (xs ! (i - 1))" by blast
  have "d \<le> e" if e: "e \<in> set xs" "yearMonth e = yearMonth d" for e
  proof -
    from e(1) obtain j where j: "j < length xs" "e = xs ! j" by (auto simp add: in_set_conv_nth)
    show ?thesis
    proof (cases "i \<le> j")
      case True
      with srt j i show ?thesis by (simp add: sorted_nth_mono)
    next
      case False
      then have ji: "j \<le> i - 1" "i - 1 \<le> i" "i \<noteq> 0" by simp_all
      with i have i1: "i - 1 < length xs" by simp
      from srt ji i i1 have le: "xs ! j \<le> xs ! (i - 1)" "xs ! (i - 1) \<le> xs ! i"
        by (simp_all add: sorted_nth_mono)
      from cal i j i1 have c: "isCalendarDate (xs ! j)" "isCalendarDate (xs ! (i - 1))"
        "isCalendarDate (xs ! i)" by simp_all
      from e(2) i j have "yearMonth (xs ! j) = yearMonth (xs ! i)" by simp
      from yearMonth_between [OF c le this] this
      have "yearMonth (xs ! (i - 1)) = yearMonth (xs ! i)" by simp
      with new ji(3) show ?thesis by simp
    qed
  qed
  with i show "d \<in> ?first" by simp
next
  fix d assume "d \<in> ?first"
  then have d: "d \<in> set xs" and least: "\<forall>e \<in> set xs. yearMonth e = yearMonth d \<longrightarrow> d \<le> e"
    by simp_all
  define i where "i = (LEAST k. k < length xs \<and> xs ! k = d)"
  from d obtain k where "k < length xs \<and> xs ! k = d" by (auto simp add: in_set_conv_nth)
  then have i: "i < length xs \<and> xs ! i = d" unfolding i_def by (rule LeastI)
  have min: "\<not> (k < length xs \<and> xs ! k = d)" if "k < i" for k
    using that unfolding i_def by (rule not_less_Least)
  have "i = 0 \<or> yearMonth (xs ! i) \<noteq> yearMonth (xs ! (i - 1))"
  proof (cases "i = 0")
    case True
    then show ?thesis by simp
  next
    case False
    with i have i1: "i - 1 < length xs" "i - 1 < i" by auto
    have "yearMonth (xs ! (i - 1)) \<noteq> yearMonth d"
    proof
      assume same: "yearMonth (xs ! (i - 1)) = yearMonth d"
      from i1 have "xs ! (i - 1) \<in> set xs" by simp
      with least same have "d \<le> xs ! (i - 1)" by blast
      moreover from srt i i1 have "xs ! (i - 1) \<le> d"
        using sorted_nth_mono [of xs "i - 1" i] by simp
      ultimately have "xs ! (i - 1) = d" by simp
      with min [OF i1(2)] i1(1) show False by simp
    qed
    with i show ?thesis by auto
  qed
  with i show "d \<in> ?marked" by blast
qed

lemma contributionDays_first_of_month:
  assumes "\<forall>d \<in> set days. isCalendarDate d"
  shows "contributionDays (buildTradingSchedules days) =
     {d \<in> set days. \<forall>e \<in> set days. yearMonth e = yearMonth d \<longrightarrow> d \<le> e}"
proof -
  have s: "set (sortIsoDates days) = set days" "sorted (sortIsoDates days)"
    by (simp_all add: sortIsoDates_def)
  from assms have "\<forall>d \<in> set (sortIsoDates days). isCalendarDate d" by (simp add: s)
  from first_of_month [OF this s(2)] contributionDays_index [OF assms]
  show ?thesis by (simp only: s(1))
qed

lemma rebalanceDays_filter:
  "rebalanceDays (buildTradingSchedules days) =
     {d \<in> contributionDays (buildTradingSchedules days). isQuarterStartDay d}"
  unfolding contributionDays_zip rebalanceDays_zip by blast

lemma buildTradingSchedules_Nil:
  "buildTradingSchedules [] = \<lparr>contributionDays = {}, rebalanceDays = {}\<rparr>"
  by (simp add: buildTradingSchedules_def sortIsoDates_def)


lemma test_monthKeys:
  "monthKey ''2024-01-02'' = ''2024-0''" "monthKey ''2024-01-03'' = ''2024-0''"
  "monthKey ''2024-02-01'' = ''2024-1''" "monthKey ''2024-03-01'' = ''2024-2''"
  "monthKey ''2024-04-01'' = ''2024-3''" "monthKey ''2024-04-02'' = ''2024-3''"
  by (simp_all add: cal_defs showNat.simps)

lemma test_quarters:
  "isQuarterStartDay ''2024-01-02''" "\<not> isQuarterStartDay ''2024-02-01''"
  "\<not> isQuarterStartDay ''2024-03-01''" "isQuarterStartDay ''2024-04-01''"
  by (simp_all add: cal_defs)

lemma test_schedules:
  "buildTradingSchedules testTradingDays =
     \<lparr>contributionDays = {''2024-01-02'', ''2024-02-01'', ''2024-03-01'', ''2024-04-01''},
      rebalanceDays = {''2024-01-02'', ''2024-04-01''}\<rparr>"
proof -
  have srt: "sortIsoDates testTradingDays = testTradingDays"
    by (simp add: sortIsoDates_def testTradingDays_def)
  show ?thesis
    unfolding buildTradingSchedules_def srt Let_def
    by (simp add: testTradingDays_def test_monthKeys test_quarters insert_commute)
qed

text \<open>
  Claim C5. For every list of trading dates (calendar dates \<^verbatim>\<open>YYYY-MM-DD\<close>),
  \<^verbatim>\<open>buildTradingSchedules\<close> sorts the dates ascending and marks as contribution days
  exactly the dates whose year-month differs from the one of the date before them in the sorted
  list (the first date always): the first date observed in each new year-month, which is the
  earliest of the dates of that year-month. The rebalance days are exactly the contribution
  days whose month is January, April, July or October (the zero-based months 0, 3, 6, 9).
  The empty list yields two empty sets. For the trading days
  2024-01-02, 2024-01-03, 2024-02-01, 2024-03-01, 2024-04-01, 2024-04-02 of the repository's
  test, the contribution days include 2024-01-02, 2024-02-01, 2024-03-01 and 2024-04-01, and the
  rebalance days include 2024-01-02 and 2024-04-01 but not 2024-03-01.
\<close>

theorem C5_schedules:
  assumes "\<forall>d \<in> set tradingDays. isCalendarDate d"
  shows "sorted (sortIsoDates tradingDays) \<and> set (sortIsoDates tradingDays) = set tradingDays
    \<and> contributionDays (buildTradingSchedules tradingDays) =
        {sortIsoDates tradingDays ! i | i. i < length (sortIsoDates tradingDays)
          \<and> (i = 0 \<or> yearMonth (sortIsoDates tradingDays ! i)
                        \<noteq> yearMonth (sortIsoDates tradingDays ! (i - 1)))}
    \<and> contributionDays (buildTradingSchedules tradingDays) =
        {d \<in> set tradingDays. \<forall>e \<in> set tradingDays. yearMonth e = yearMonth d \<longrightarrow> d \<le> e}
    \<and> rebalanceDays (buildTradingSchedules tradingDays) =
        {d \<in> contributionDays (buildTradingSchedules tradingDays).
           \<exists>y m. yearMonth d = Some (y, m) \<and> m \<in> {0, 3, 6, 9}}
    \<and> buildTradingSchedules [] = \<lparr>contributionDays = {}, rebalanceDays = {}\<rparr>
    \<and> {''2024-01-02'', ''2024-02-01'', ''2024-03-01'', ''2024-04-01''}
          \<subseteq> contributionDays (buildTradingSchedules testTradingDays)
    \<and> ''2024-01-02'' \<in> rebalanceDays (buildTradingSchedules testTradingDays)
    \<and> ''2024-04-01'' \<in> rebalanceDays (buildTradingSchedules testTradingDays)
    \<and> ''2024-03-01'' \<notin> rebalanceDays (buildTradingSchedules testTradingDays)"
proof -
  have a: "sorted (sortIsoDates tradingDays) \<and> set (sortIsoDates tradingDays) = set tradingDays"
    by (simp add: sortIsoDates_def)
  have b: "rebalanceDays (buildTradingSchedules tradingDays) =
        {d \<in> contributionDays (buildTradingSchedules tradingDays).
           \<exists>y m. yearMonth d = Some (y, m) \<and> m \<in> {0, 3, 6, 9}}"
    unfolding rebalanceDays_filter [of tradingDays] isQuarterStartDay_yearMonth ..
  have c: "{''2024-01-02'', ''2024-02-01'', ''2024-03-01'', ''2024-04-01''}
          \<subseteq> contributionDays (buildTradingSchedules testTradingDays)
    \<and> ''2024-01-02'' \<in> rebalanceDays (buildTradingSchedules testTradingDays)
    \<and> ''2024-04-01'' \<in> rebalanceDays (buildTradingSchedules testTradingDays)
    \<and> ''2024-03-01'' \<notin> rebalanceDays (buildTradingSchedules testTradingDays)"
    by (simp add: test_schedules)
  from a b c contributionDays_index [OF assms] contributionDays_first_of_month [OF assms]
    buildTradingSchedules_Nil
  show ?thesis by blast
qed

theorem C5_schedules_witness:
  "isCalendarDate ''2024-03-29'' \<and> isCalendarDate ''2024-04-01''
   \<and> rebalanceDays (buildTradingSchedules [''2024-03-29'', ''2024-04-01'']) =
        {d \<in> contributionDays (buildTradingSchedules [''2024-03-29'', ''2024-04-01'']).
           \<exists>y m. yearMonth d = Some (y, m) \<and> m \<in> {0, 3, 6, 9}}"
proof -
  have h: "\<forall>d \<in> set [''2024-03-29'', ''2024-04-01'']. isCalendarDate d"
    by (simp add: cal_defs)
  from C5_schedules [OF h] have
    "rebalanceDays (buildTradingSchedules [''2024-03-29'', ''2024-04-01'']) =
        {d \<in> contributionDays (buildTradingSchedules [''2024-03-29'', ''2024-04-01'']).
           \<exists>y m. yearMonth d = Some (y, m) \<and> m \<in> {0, 3, 6, 9}}"
    by blast
  with h show ?thesis by simp
qed

text \<open>
  Claim C10. For every input list of trading dates, every rebalance day returned by
  \<^verbatim>\<open>buildTradingSchedules\<close> is also a contribution day.
\<close>

theorem C10_rebalance_subset:
  "rebalanceDays (buildTradingSchedules tradingDays)
     \<subseteq> contributionDays (buildTradingSchedules tradingDays)"
  unfolding rebalanceDays_filter [of tradingDays] by blast

theorem C10_rebalance_subset_witness:
  "rebalanceDays (buildTradingSchedules [''2024-04-01'', ''2024-03-29''])
     \<subseteq> contributionDays (buildTradingSchedules [''2024-04-01'', ''2024-03-29''])"
  by (rule C10_rebalance_subset)

subsection \<open>C6: time-weighted daily returns\<close>

text \<open>The loop appends, for each index from where it stands, the entry of that index.\<close>

lemma twrLoop_map:
  "twrLoop vs netFlows index returns =
     returns @ map (twrEntry vs netFlows) [index ..< length vs]"
proof (induction vs netFlows index returns rule: twrLoop.induct)
  case (1 vs netFlows index returns)
  show ?case
  proof (cases "index < length vs")
    case False
    then show ?thesis by (simp add: twrLoop.simps [of vs netFlows index returns])
  next
    case True
    then have upt: "[index ..< length vs] = index # [Suc index ..< length vs]"
      by (simp add: upt_conv_Cons)
    show ?thesis
    proof (cases "jleZero (vs ! (index - 1))")
      case neg: True
      from "1.IH"(1) [OF True refl neg]
      have "twrLoop vs netFlows (Suc index) (returns @ [Fin 0]) =
              (returns @ [Fin 0]) @ map (twrEntry vs netFlows) [Suc index ..< length vs]" .
      with True neg show ?thesis
        by (simp add: twrLoop.simps [of vs netFlows index returns] upt twrEntry_def)
    next
      case pos: False
      let ?q = "jdiv (jsub (jsub (vs ! index) (vs ! (index - 1))) (flowAt netFlows index))
                  (vs ! (index - 1))"
      let ?r = "if isFinite ?q then ?q else Fin 0"
      from "1.IH"(2) [OF True refl pos refl refl]
      have ih: "twrLoop vs netFlows (Suc index) (returns @ [?r]) =
              (returns @ [?r]) @ map (twrEntry vs netFlows) [Suc index ..< length vs]" .
      have step: "twrLoop vs netFlows index returns = twrLoop vs netFlows (Suc index) (returns @ [?r])"
        using True pos by (subst twrLoop.simps) (simp add: Let_def)
      have entry: "twrEntry vs netFlows index = ?r"
        using pos by (simp add: twrEntry_def Let_def)
      show ?thesis
        unfolding step ih upt by (simp add: entry)
    qed
  qed
qed

text \<open>
  Claim C6. For every value series \<open>V\<close> of length \<open>N\<close> and every flow series, the sequence of
  time-weighted daily returns has length \<open>N - 1\<close> (0 for the empty series), and its entry
  for day \<open>t\<close> (at index \<open>t - 1\<close>) is \<open>(V[t] - V[t-1] - flow[t]) / V[t-1]\<close>, with 0 in its
  place whenever \<open>V[t-1] \<le> 0\<close> or the quotient is not finite; a flow missing from the flow
  series counts as 0. For the values 100, 110, 170 and the net flows 100, 0, 50 the first two
  entries are 0.1 and 10/110, which is 0.090909 within 1e-6.
\<close>

theorem C6_time_weighted_returns:
  "length (calculateTimeWeightedDailyReturns V flow) = length V - 1
   \<and> (\<forall>t. 1 \<le> t \<and> t < length V \<longrightarrow>
         calculateTimeWeightedDailyReturns V flow ! (t - 1) = twrEntry V flow t)
   \<and> calculateTimeWeightedDailyReturns [Fin 100, Fin 110, Fin 170] [Fin 100, Fin 0, Fin 50] ! 0
       = Fin (1 / 10)
   \<and> calculateTimeWeightedDailyReturns [Fin 100, Fin 110, Fin 170] [Fin 100, Fin 0, Fin 50] ! 1
       = Fin (10 / 110)
   \<and> \<bar>10 / 110 - 90909 / 1000000\<bar> \<le> (1 / 1000000 :: real)"
proof -
  have eq: "calculateTimeWeightedDailyReturns V flow = map (twrEntry V flow) [1 ..< length V]"
    for V flow
    by (simp add: calculateTimeWeightedDailyReturns_def twrLoop_map)
  have len: "length (calculateTimeWeightedDailyReturns V flow) = length V - 1"
    by (simp add: eq)
  have ent: "calculateTimeWeightedDailyReturns V flow ! (t - 1) = twrEntry V flow t"
    if "1 \<le> t \<and> t < length V" for t
  proof -
    from that have "t - 1 < length [1 ..< length V]" by auto
    then have "map (twrEntry V flow) [1 ..< length V] ! (t - 1) = twrEntry V flow ([1 ..< length V] ! (t - 1))"
      by (rule nth_map)
    also from that have "[1 ..< length V] ! (t - 1) = t" by simp
    finally show ?thesis by (simp add: eq)
  qed
  have ex0: "calculateTimeWeightedDailyReturns [Fin 100, Fin 110, Fin 170] [Fin 100, Fin 0, Fin 50] ! 0
       = Fin (1 / 10)"
    by (simp add: eq twrEntry_def flowAt_def upt_conv_Cons)
  have ex1: "calculateTimeWeightedDailyReturns [Fin 100, Fin 110, Fin 170] [Fin 100, Fin 0, Fin 50] ! 1
       = Fin (10 / 110)"
    by (simp add: eq twrEntry_def flowAt_def upt_conv_Cons)
  have tol: "\<bar>10 / 110 - 90909 / 1000000\<bar> \<le> (1 / 1000000 :: real)" by simp
  from len ent ex0 ex1 tol show ?thesis by blast
qed

theorem C6_time_weighted_returns_witness:
  "(1::nat) \<le> 2 \<and> (2::nat) < length [Fin 200, Fin 0, Fin 50]
   \<and> calculateTimeWeightedDailyReturns [Fin 200, Fin 0, Fin 50] [Fin 0] ! (2 - 1) = Fin 0
   \<and> (1::nat) \<le> 1 \<and> (1::nat) < length [Fin 200, Fin 0, Fin 50]
   \<and> calculateTimeWeightedDailyReturns [Fin 200, Fin 0, Fin 50] [Fin 0] ! (1 - 1) = Fin (- 1)"
proof -
  have h2: "(1::nat) \<le> 2 \<and> (2::nat) < length [Fin 200, Fin 0, Fin 50]" by simp
  have h1: "(1::nat) \<le> 1 \<and> (1::nat) < length [Fin 200, Fin 0, Fin 50]" by simp
  from C6_time_weighted_returns [of "[Fin 200, Fin 0, Fin 50]" "[Fin 0]"]
  have ent: "\<forall>t. 1 \<le> t \<and> t < length [Fin 200, Fin 0, Fin 50] \<longrightarrow>
      calculateTimeWeightedDailyReturns [Fin 200, Fin 0, Fin 50] [Fin 0] ! (t - 1)
        = twrEntry [Fin 200, Fin 0, Fin 50] [Fin 0] t"
    by blast
  from ent h2 have e2: "calculateTimeWeightedDailyReturns [Fin 200, Fin 0, Fin 50] [Fin 0] ! (2 - 1)
        = twrEntry [Fin 200, Fin 0, Fin 50] [Fin 0] 2" by blast
  from ent h1 have e1: "calculateTimeWeightedDailyReturns [Fin 200, Fin 0, Fin 50] [Fin 0] ! (1 - 1)
        = twrEntry [Fin 200, Fin 0, Fin 50] [Fin 0] 1" by blast
  have v2: "twrEntry [Fin 200, Fin 0, Fin 50] [Fin 0] 2 = Fin 0"
    by (simp add: twrEntry_def)
  have v1: "twrEntry [Fin 200, Fin 0, Fin 50] [Fin 0] 1 = Fin (- 1)"
    by (simp add: twrEntry_def flowAt_def)
  from h1 h2 e1 e2 v1 v2 show ?thesis by simp
qed

subsection \<open>Sums for the folds\<close>

lemma foldl_add_sum_list:
  "foldl (\<lambda>s a. s + f a) z xs = (z::real) + sum_list (map f xs)"
  by (induction xs arbitrary: z) simp_all

lemma getTotalStockWeight_sum: "getTotalStockWeight allocs = sum_list (map weight allocs)"
  by (simp add: getTotalStockWeight_def foldl_add_sum_list)

lemma computeStockValue_sum:
  "computeStockValue day allocs holdings closeMaps =
     sum_list (map (positionValue holdings closeMaps day) allocs)"
proof -
  have "(\<lambda>total allocation.
              let price = orZero (closeMaps (ticker allocation) day);
                  shares = orZero (holdings (ticker allocation))
              in total + shares * price)
        = (\<lambda>total a. total + positionValue holdings closeMaps day a)"
    by (simp add: positionValue_def priceAt_def Let_def)
  then show ?thesis
    by (simp add: computeStockValue_def foldl_add_sum_list)
qed

lemma liquidateLoop_apply:
  "liquidateLoop allocs holdings t =
     (if t \<in> ticker ` set allocs then Some 0 else holdings t)"
  by (induction allocs arbitrary: holdings) auto

lemma retargetLoop_Cons:
  "retargetLoop day B W closeMaps (a # rest) (holdings, tsv) =
     (if 0 < priceAt closeMaps day a
      then retargetLoop day B W closeMaps rest
             (holdings(ticker a \<mapsto> B * (weight a / W) / priceAt closeMaps day a),
              tsv + B * (weight a / W))
      else retargetLoop day B W closeMaps rest (holdings, tsv))"
  by (auto simp add: priceAt_def orZero_def Let_def split: option.splits)

lemma retargetLoop_snd:
  "snd (retargetLoop day B W closeMaps allocs (holdings, tsv)) =
     tsv + sum_list (map (\<lambda>a. B * (weight a / W))
                       (filter (\<lambda>a. 0 < priceAt closeMaps day a) allocs))"
  by (induction allocs arbitrary: holdings tsv)
     (simp_all add: retargetLoop_Cons del: retargetLoop.simps(2))

lemma retargetLoop_other:
  "\<forall>a \<in> set allocs. 0 < priceAt closeMaps day a \<longrightarrow> ticker a \<noteq> t \<Longrightarrow>
   fst (retargetLoop day B W closeMaps allocs (holdings, tsv)) t = holdings t"
  by (induction allocs arbitrary: holdings tsv)
     (auto simp add: retargetLoop_Cons simp del: retargetLoop.simps(2))

lemma retargetLoop_priced:
  "distinct (map ticker allocs) \<Longrightarrow> a \<in> set allocs \<Longrightarrow> 0 < priceAt closeMaps day a \<Longrightarrow>
   fst (retargetLoop day B W closeMaps allocs (holdings, tsv)) (ticker a) =
     Some (B * (weight a / W) / priceAt closeMaps day a)"
proof (induction allocs arbitrary: holdings tsv)
  case Nil
  then show ?case by simp
next
  case (Cons b rest)
  show ?case
  proof (cases "a = b")
    case True
    from Cons.prems(1) have "ticker b \<notin> ticker ` set rest" by simp
    then have other: "\<forall>x \<in> set rest. 0 < priceAt closeMaps day x \<longrightarrow> ticker x \<noteq> ticker b"
      by (auto simp add: image_iff)
    from Cons.prems(3) True show ?thesis
      by (simp add: retargetLoop_Cons retargetLoop_other [OF other] del: retargetLoop.simps(2))
  next
    case False
    with Cons.prems have "a \<in> set rest" "distinct (map ticker rest)" by auto
    from Cons.IH [OF this(2) this(1) Cons.prems(3)] show ?thesis
      by (simp add: retargetLoop_Cons del: retargetLoop.simps(2))
  qed
qed

lemma rebalancePortfolio_liquidate:
  assumes "0 < computeStockValue day allocs holdings closeMaps + cashVal"
    and "computeDesiredStockBudget (computeStockValue day allocs holdings closeMaps + cashVal)
           (getTotalStockWeight allocs) minReserve \<le> 0 \<or> getTotalStockWeight allocs \<le> 0"
  shows "rebalancePortfolio day allocs holdings closeMaps cashVal minReserve =
           (liquidateLoop allocs holdings,
            computeStockValue day allocs holdings closeMaps + cashVal)"
  using assms by (simp add: rebalancePortfolio_def computePortfolioValue_def Let_def)

lemma rebalancePortfolio_retarget:
  assumes "0 < computeStockValue day allocs holdings closeMaps + cashVal"
    and "\<not> (computeDesiredStockBudget (computeStockValue day allocs holdings closeMaps + cashVal)
           (getTotalStockWeight allocs) minReserve \<le> 0 \<or> getTotalStockWeight allocs \<le> 0)"
  shows "rebalancePortfolio day allocs holdings closeMaps cashVal minReserve =
           (fst (retargetLoop day
                  (computeDesiredStockBudget
                     (computeStockValue day allocs holdings closeMaps + cashVal)
                     (getTotalStockWeight allocs) minReserve)
                  (getTotalStockWeight allocs) closeMaps allocs (holdings, 0)),
            max 0 (computeStockValue day allocs holdings closeMaps + cashVal
                   - snd (retargetLoop day
                      (computeDesiredStockBudget
                         (computeStockValue day allocs holdings closeMaps + cashVal)
                         (getTotalStockWeight allocs) minReserve)
                      (getTotalStockWeight allocs) closeMaps allocs (holdings, 0))))"
  using assms
  by (simp add: rebalancePortfolio_def computePortfolioValue_def Let_def case_prod_beta)

subsection \<open>C3: what a rebalance does\<close>

text \<open>
  Claim C3. When a rebalance executes on a day with positive portfolio value \<open>P\<close> (the
  allocations of a run have distinct tickers, as the schema rejects a request that repeats
  one: lemma \<open>schema_ok_simulator_input\<close> below): if the recomputed investable budget \<open>B\<close> is
  at most 0 or the total allocation weight \<open>W\<close> is at most 0, every allocation's held shares
  become 0 and the cash becomes \<open>P\<close>; otherwise, for each allocation whose close of the day
  exists and is positive, the held shares are set to \<open>(B * (weight / W)) / price\<close>, whatever
  was held before, the allocations without a positive price keep their shares, and the cash
  becomes \<open>max 0 (P - sum of the newly targeted values)\<close>.
\<close>

theorem C3_rebalance_execution:
  assumes "distinct (map ticker allocs)"
    and "P = computeStockValue day allocs holdings closeMaps + cashVal"
    and "0 < P"
    and "W = getTotalStockWeight allocs"
    and "B = computeDesiredStockBudget P W minReserve"
    and "rebalancePortfolio day allocs holdings closeMaps cashVal minReserve = (holdings', cash')"
  shows "(B \<le> 0 \<or> W \<le> 0 \<longrightarrow>
            (\<forall>a \<in> set allocs. holdings' (ticker a) = Some 0) \<and> cash' = P)
       \<and> (\<not> (B \<le> 0 \<or> W \<le> 0) \<longrightarrow>
            (\<forall>a \<in> set allocs.
               (0 < priceAt closeMaps day a \<longrightarrow>
                  holdings' (ticker a) = Some (B * (weight a / W) / priceAt closeMaps day a))
               \<and> (\<not> 0 < priceAt closeMaps day a \<longrightarrow> holdings' (ticker a) = holdings (ticker a)))
            \<and> cash' = max 0 (P - sum_list (map (\<lambda>a. B * (weight a / W))
                                  (filter (\<lambda>a. 0 < priceAt closeMaps day a) allocs))))"
proof (intro conjI impI)
  assume liq: "B \<le> 0 \<or> W \<le> 0"
  from rebalancePortfolio_liquidate [of day allocs holdings closeMaps cashVal minReserve] liq assms
  have eq: "(holdings', cash') = (liquidateLoop allocs holdings, P)" by simp
  then show "\<forall>a \<in> set allocs. holdings' (ticker a) = Some 0"
    by (simp add: liquidateLoop_apply)
  from eq show "cash' = P" by simp
next
  assume re: "\<not> (B \<le> 0 \<or> W \<le> 0)"
  from rebalancePortfolio_retarget [of day allocs holdings closeMaps cashVal minReserve] re assms
  have eq: "(holdings', cash') =
      (fst (retargetLoop day B W closeMaps allocs (holdings, 0)),
       max 0 (P - snd (retargetLoop day B W closeMaps allocs (holdings, 0))))" by simp
  then have h: "holdings' = fst (retargetLoop day B W closeMaps allocs (holdings, 0))"
    and c: "cash' = max 0 (P - snd (retargetLoop day B W closeMaps allocs (holdings, 0)))"
    by simp_all
  show "\<forall>a \<in> set allocs.
               (0 < priceAt closeMaps day a \<longrightarrow>
                  holdings' (ticker a) = Some (B * (weight a / W) / priceAt closeMaps day a))
               \<and> (\<not> 0 < priceAt closeMaps day a \<longrightarrow> holdings' (ticker a) = holdings (ticker a))"
  proof (intro ballI conjI impI)
    fix a assume a: "a \<in> set allocs" and pos: "0 < priceAt closeMaps day a"
    from retargetLoop_priced [OF assms(1) a pos] h
    show "holdings' (ticker a) = Some (B * (weight a / W) / priceAt closeMaps day a)" by simp
  next
    fix a assume a: "a \<in> set allocs" and npos: "\<not> 0 < priceAt closeMaps day a"
    have "\<forall>x \<in> set allocs. 0 < priceAt closeMaps day x \<longrightarrow> ticker x \<noteq> ticker a"
      using npos by (auto simp add: priceAt_def)
    from retargetLoop_other [OF this] h show "holdings' (ticker a) = holdings (ticker a)" by simp
  qed
  from c show "cash' = max 0 (P - sum_list (map (\<lambda>a. B * (weight a / W))
                                  (filter (\<lambda>a. 0 < priceAt closeMaps day a) allocs)))"
    by (simp add: retargetLoop_snd)
qed

text \<open>Evaluation at the concrete inputs.\<close>

lemmas ex_defs = exAllocations_def exCloseMapsOnePriced_def exHoldings_def cexCloseMaps_def
  cexHoldings_def

lemma ex_stock: "computeStockValue ''2024-04-01'' exAllocations exHoldings exCloseMapsOnePriced = 600"
  by (simp add: computeStockValue_def ex_defs orZero_def)

lemma ex_weight: "getTotalStockWeight exAllocations = 1"
  by (simp add: getTotalStockWeight_def ex_defs)

lemma ex_budget: "computeDesiredStockBudget 1000 1 100 = 900"
  by (simp add: computeDesiredStockBudget_def)

theorem C3_rebalance_execution_witness:
  "distinct (map ticker exAllocations) \<and> 0 < (1000::real)
   \<and> fst (rebalancePortfolio ''2024-04-01'' exAllocations exHoldings exCloseMapsOnePriced 400 100)
        ''SPY'' = Some (9 / 2)
   \<and> fst (rebalancePortfolio ''2024-04-01'' exAllocations exHoldings exCloseMapsOnePriced 400 100)
        ''QQQ'' = Some 1
   \<and> snd (rebalancePortfolio ''2024-04-01'' exAllocations exHoldings exCloseMapsOnePriced 400 100)
        = 550"
proof -
  let ?r = "rebalancePortfolio ''2024-04-01'' exAllocations exHoldings exCloseMapsOnePriced 400 100"
  have d: "distinct (map ticker exAllocations)" by (simp add: ex_defs)
  have P: "(1000::real) = computeStockValue ''2024-04-01'' exAllocations exHoldings exCloseMapsOnePriced + 400"
    by (simp add: ex_stock)
  have W: "(1::real) = getTotalStockWeight exAllocations" by (simp add: ex_weight)
  have B: "(900::real) = computeDesiredStockBudget 1000 1 100" by (simp add: ex_budget)
  have r: "?r = (fst ?r, snd ?r)" by simp
  note c3 = C3_rebalance_execution [OF d P _ W B r]
  have spy: "\<lparr>ticker = ''SPY'', weight = 1 / 2, expenseRatio = 0\<rparr> \<in> set exAllocations"
    and qqq: "\<lparr>ticker = ''QQQ'', weight = 1 / 2, expenseRatio = 0\<rparr> \<in> set exAllocations"
    by (simp_all add: ex_defs)
  have pspy: "priceAt exCloseMapsOnePriced ''2024-04-01'' \<lparr>ticker = ''SPY'', weight = 1 / 2, expenseRatio = 0\<rparr> = 100"
    and pqqq: "priceAt exCloseMapsOnePriced ''2024-04-01'' \<lparr>ticker = ''QQQ'', weight = 1 / 2, expenseRatio = 0\<rparr> = 0"
    by (simp_all add: priceAt_def orZero_def ex_defs)
  from c3 have all: "\<forall>a \<in> set exAllocations.
               (0 < priceAt exCloseMapsOnePriced ''2024-04-01'' a \<longrightarrow>
                  fst ?r (ticker a) = Some (900 * (weight a / 1) / priceAt exCloseMapsOnePriced ''2024-04-01'' a))
               \<and> (\<not> 0 < priceAt exCloseMapsOnePriced ''2024-04-01'' a \<longrightarrow> fst ?r (ticker a) = exHoldings (ticker a))"
    and cash: "snd ?r = max 0 (1000 - sum_list (map (\<lambda>a. 900 * (weight a / 1))
                   (filter (\<lambda>a. 0 < priceAt exCloseMapsOnePriced ''2024-04-01'' a) exAllocations)))"
    by simp_all
  from all spy pspy have s1: "fst ?r ''SPY'' = Some (9 / 2)" by force
  from all qqq pqqq have s2: "fst ?r ''QQQ'' = Some 1" by (force simp add: exHoldings_def)
  from cash have s3: "snd ?r = 550"
    by (simp add: exAllocations_def pspy pqqq)
  from d s1 s2 s3 show ?thesis by simp
qed

subsection \<open>C2: the drift trigger\<close>

lemma getCurrentWeightsLoop_apply:
  "getCurrentWeightsLoop day allocs holdings closeMaps pv weights t =
     (if t \<in> ticker ` set allocs
      then Some (if pv > 0 then orZero (holdings t) * orZero (closeMaps t day) / pv else 0)
      else weights t)"
  by (induction allocs arbitrary: weights) (auto simp add: Let_def)

lemma getCurrentWeights_apply:
  "a \<in> set allocs \<Longrightarrow> 0 < pv \<Longrightarrow>
   orZero (getCurrentWeights day allocs holdings closeMaps pv (ticker a)) =
     positionValue holdings closeMaps day a / pv"
  by (simp add: getCurrentWeights_def getCurrentWeightsLoop_apply positionValue_def priceAt_def
        orZero_def)

lemma computeDesiredStockBudget_nonneg: "0 \<le> computeDesiredStockBudget P W R"
  by (simp add: computeDesiredStockBudget_def Let_def)

lemma shouldRebalance_guarded:
  assumes "P = computeStockValue day allocs holdings closeMaps + cashVal"
    and "0 < P"
    and "W = getTotalStockWeight allocs"
    and "B = computeDesiredStockBudget P W minReserve"
  shows "shouldRebalance day allocs holdings closeMaps cashVal minReserve \<longleftrightarrow>
       (\<bar>cashVal / P - (P - B) / P\<bar> > 5 / 1000
        \<or> (0 < W \<and> 0 < B
            \<and> (\<exists>a \<in> set allocs.
                  \<bar>positionValue holdings closeMaps day a / P - B * (weight a / W) / P\<bar> > 5 / 1000)))"
proof -
  have ex: "list_ex (\<lambda>allocation.
               \<bar>orZero (getCurrentWeights day allocs holdings closeMaps P (ticker allocation))
                 - B * (weight allocation / W) / P\<bar> > 5 / 1000) allocs
        \<longleftrightarrow> (\<exists>a \<in> set allocs.
                  \<bar>positionValue holdings closeMaps day a / P - B * (weight a / W) / P\<bar> > 5 / 1000)"
    using assms(2) by (simp add: list_ex_iff getCurrentWeights_apply)
  have "shouldRebalance day allocs holdings closeMaps cashVal minReserve \<longleftrightarrow>
      (if \<bar>cashVal / P - (P - B) / P\<bar> > 5 / 1000 then True
       else if W \<le> 0 \<or> B \<le> 0 then False
       else list_ex (\<lambda>allocation.
               \<bar>orZero (getCurrentWeights day allocs holdings closeMaps P (ticker allocation))
                 - B * (weight allocation / W) / P\<bar> > 5 / 1000) allocs)"
    using assms
    by (simp add: shouldRebalance_def computePortfolioValue_def Let_def WEIGHT_DRIFT_TOLERANCE_def)
  then show ?thesis unfolding ex by auto
qed

lemma sum_list_map_nonneg:
  "\<forall>a \<in> set xs. (0::real) \<le> f a \<Longrightarrow> 0 \<le> sum_list (map f xs)"
  by (induction xs) simp_all

lemma member_le_sum_list_map:
  "a \<in> set xs \<Longrightarrow> \<forall>a \<in> set xs. (0::real) \<le> f a \<Longrightarrow> f a \<le> sum_list (map f xs)"
proof (induction xs)
  case Nil
  then show ?case by simp
next
  case (Cons x xs)
  from Cons.prems(2) have nn: "0 \<le> f x" "0 \<le> sum_list (map f xs)"
    by (simp_all add: sum_list_map_nonneg)
  show ?case
  proof (cases "a = x")
    case True
    with nn show ?thesis by simp
  next
    case False
    with Cons have "f a \<le> sum_list (map f xs)" by simp
    with nn show ?thesis by simp
  qed
qed

lemma no_position_drift_without_budget:
  assumes P: "P = sum_list (map f allocs) + cashVal" "0 < P"
    and nonneg: "\<forall>a \<in> set allocs. 0 \<le> f a"
    and cash: "\<not> \<bar>cashVal / P - (P - 0) / P\<bar> > (5 / 1000 :: real)"
    and a: "a \<in> set allocs"
  shows "\<not> \<bar>f a / P - 0 * w / P\<bar> > 5 / 1000"
proof -
  have le: "f a \<le> sum_list (map f allocs)"
    using a nonneg by (rule member_le_sum_list_map)
  define S where "S = sum_list (map f allocs)"
  have eq: "cashVal / P - (P - 0) / P = - (S / P)"
    using P by (simp add: field_simps S_def)
  from cash have "\<bar>cashVal / P - (P - 0) / P\<bar> \<le> 5 / 1000" by (simp only: not_less)
  then have "\<bar>- (S / P)\<bar> \<le> 5 / 1000" by (simp only: eq)
  then have s: "S / P \<le> 5 / 1000" by linarith
  from le P(2) have fs: "f a / P \<le> S / P"
    unfolding S_def by (simp add: divide_right_mono)
  from a nonneg P(2) have f0: "0 \<le> f a / P" by simp
  have z: "f a / P - 0 * w / P = f a / P" by simp
  show ?thesis unfolding z using s fs f0 by linarith
qed

text \<open>
  Claim C2, as amended. On a rebalance day with positive portfolio value \<open>P\<close>, with \<open>B\<close> the
  investable budget and \<open>W\<close> the total weight, \<^verbatim>\<open>shouldRebalance\<close> holds if and only if
  \<open>|cash / P - (P - B) / P| > 0.005\<close>, or \<open>W > 0\<close> and \<open>B > 0\<close> and some allocation has
  \<open>|shares * close / P - B * (weight / W) / P| > 0.005\<close>. When \<open>W > 0\<close> and no position has a
  negative value, the condition \<open>B > 0\<close> adds nothing: the rule is then the one of the claim.
  (In the loop of \<^verbatim>\<open>runSimulation\<close>, \<^verbatim>\<open>shouldRebalance\<close> is asked after the first
  day, on the rebalance days: see \<open>rebalanceStep\<close>.)
\<close>

theorem C2_drift_trigger:
  assumes "P = computeStockValue day allocs holdings closeMaps + cashVal"
    and "0 < P"
    and "W = getTotalStockWeight allocs"
    and "B = computeDesiredStockBudget P W minReserve"
  shows "(shouldRebalance day allocs holdings closeMaps cashVal minReserve \<longleftrightarrow>
           (\<bar>cashVal / P - (P - B) / P\<bar> > 5 / 1000
            \<or> (0 < W \<and> 0 < B
                \<and> (\<exists>a \<in> set allocs.
                      \<bar>positionValue holdings closeMaps day a / P - B * (weight a / W) / P\<bar>
                        > 5 / 1000))))
       \<and> (0 < W \<and> (\<forall>a \<in> set allocs. 0 \<le> positionValue holdings closeMaps day a) \<longrightarrow>
            (shouldRebalance day allocs holdings closeMaps cashVal minReserve \<longleftrightarrow>
               (\<bar>cashVal / P - (P - B) / P\<bar> > 5 / 1000
                \<or> (\<exists>a \<in> set allocs.
                      \<bar>positionValue holdings closeMaps day a / P - B * (weight a / W) / P\<bar>
                        > 5 / 1000))))"
proof (intro conjI impI)
  show g: "shouldRebalance day allocs holdings closeMaps cashVal minReserve \<longleftrightarrow>
           (\<bar>cashVal / P - (P - B) / P\<bar> > 5 / 1000
            \<or> (0 < W \<and> 0 < B
                \<and> (\<exists>a \<in> set allocs.
                      \<bar>positionValue holdings closeMaps day a / P - B * (weight a / W) / P\<bar>
                        > 5 / 1000)))"
    by (rule shouldRebalance_guarded [OF assms])
  assume h: "0 < W \<and> (\<forall>a \<in> set allocs. 0 \<le> positionValue holdings closeMaps day a)"
  show "shouldRebalance day allocs holdings closeMaps cashVal minReserve \<longleftrightarrow>
               (\<bar>cashVal / P - (P - B) / P\<bar> > 5 / 1000
                \<or> (\<exists>a \<in> set allocs.
                      \<bar>positionValue holdings closeMaps day a / P - B * (weight a / W) / P\<bar>
                        > 5 / 1000))"
  proof (cases "0 < B")
    case True
    with h g show ?thesis by simp
  next
    case False
    with computeDesiredStockBudget_nonneg [of P W minReserve] assms(4) have B0: "B = 0" by simp
    have P': "P = sum_list (map (positionValue holdings closeMaps day) allocs) + cashVal"
      using assms(1) by (simp add: computeStockValue_sum)
    have "\<not> \<bar>positionValue holdings closeMaps day a / P - 0 * (weight a / W) / P\<bar> > 5 / 1000"
      if "a \<in> set allocs" "\<not> \<bar>cashVal / P - (P - 0) / P\<bar> > 5 / 1000" for a
      using no_position_drift_without_budget [OF P' assms(2) _ that(2) that(1)] h by blast
    with g B0 show ?thesis by auto
  qed
qed

lemma cex_stock: "computeStockValue ''2024-04-01'' exAllocations cexHoldings cexCloseMaps = 0"
  by (simp add: computeStockValue_def ex_defs orZero_def)

lemma cex_budget: "computeDesiredStockBudget 500 1 500 = 0"
  by (simp add: computeDesiredStockBudget_def)

lemma cex_position:
  "positionValue cexHoldings cexCloseMaps ''2024-04-01''
     \<lparr>ticker = ''SPY'', weight = 1 / 2, expenseRatio = 0\<rparr> = 250"
  by (simp add: positionValue_def priceAt_def orZero_def ex_defs)

text \<open>
  Claim C2 as stated fails where the budget is 0 and positions of opposite sign cancel: 2.5
  shares of SPY at 100 and 2.5 shares of QQQ at -100 beside a cash of 500 under a reserve of
  500. The portfolio value is 500, the budget 0, the cash weight is on target, so
  \<^verbatim>\<open>shouldRebalance\<close> returns false at its guard on the budget; yet the weight of SPY,
  0.5, is 0.5 away from its target 0.
\<close>

theorem C2_drift_trigger_counterexample:
  "computeStockValue ''2024-04-01'' exAllocations cexHoldings cexCloseMaps + 500 = 500
   \<and> getTotalStockWeight exAllocations = 1
   \<and> computeDesiredStockBudget 500 1 500 = 0
   \<and> \<not> shouldRebalance ''2024-04-01'' exAllocations cexHoldings cexCloseMaps 500 500
   \<and> \<lparr>ticker = ''SPY'', weight = 1 / 2, expenseRatio = 0\<rparr> \<in> set exAllocations
   \<and> \<bar>positionValue cexHoldings cexCloseMaps ''2024-04-01''
         \<lparr>ticker = ''SPY'', weight = 1 / 2, expenseRatio = 0\<rparr> / 500
       - computeDesiredStockBudget 500 1 500 * ((1 / 2) / 1) / 500\<bar> > 5 / 1000"
proof -
  have P: "(500::real) = computeStockValue ''2024-04-01'' exAllocations cexHoldings cexCloseMaps + 500"
    by (simp add: cex_stock)
  have W: "(1::real) = getTotalStockWeight exAllocations" by (simp add: ex_weight)
  have B: "(0::real) = computeDesiredStockBudget 500 1 500" by (simp add: cex_budget)
  have pos: "0 < (500::real)" by simp
  have "\<not> shouldRebalance ''2024-04-01'' exAllocations cexHoldings cexCloseMaps 500 500"
    using shouldRebalance_guarded [OF P pos W B] by simp
  moreover have "\<lparr>ticker = ''SPY'', weight = 1 / 2, expenseRatio = 0\<rparr> \<in> set exAllocations"
    by (simp add: ex_defs)
  ultimately show ?thesis
    by (simp add: cex_stock ex_weight cex_budget cex_position)
qed

theorem C2_drift_trigger_witness:
  "(1000::real) = computeStockValue ''2024-04-01'' exAllocations exHoldings exCloseMapsOnePriced + 400
   \<and> 0 < (1000::real)
   \<and> (1::real) = getTotalStockWeight exAllocations
   \<and> (900::real) = computeDesiredStockBudget 1000 1 100
   \<and> shouldRebalance ''2024-04-01'' exAllocations exHoldings exCloseMapsOnePriced 400 100"
proof -
  have P: "(1000::real) = computeStockValue ''2024-04-01'' exAllocations exHoldings exCloseMapsOnePriced + 400"
    by (simp add: ex_stock)
  have W: "(1::real) = getTotalStockWeight exAllocations" by (simp add: ex_weight)
  have B: "(900::real) = computeDesiredStockBudget 1000 1 100" by (simp add: ex_budget)
  have pos: "0 < (1000::real)" by simp
  from C2_drift_trigger [OF P pos W B]
  have "shouldRebalance ''2024-04-01'' exAllocations exHoldings exCloseMapsOnePriced 400 100"
    by simp
  with P W B show ?thesis by simp
qed

subsection \<open>\<^verbatim>\<open>runSimulation\<close> up to the day loop\<close>

lemma uniqueInOrder_foldl_set:
  "set (foldl (\<lambda>seen x. if x \<in> set seen then seen else seen @ [x]) acc xs) = set acc \<union> set xs"
  by (induction xs arbitrary: acc) auto

lemma set_uniqueInOrder: "set (uniqueInOrder xs) = set xs"
  by (simp add: uniqueInOrder_def uniqueInOrder_foldl_set)

lemma collectHistories_success:
  "\<forall>t \<in> set ts. fetchSucceeds market request t \<Longrightarrow>
   collectHistories (map (\<lambda>t. (t, market t (startDate request) (endDate request))) ts) =
     Inr (map (\<lambda>t. (t, seriesOf market request t)) ts)"
  by (induction ts) (auto simp add: fetchSucceeds_def seriesOf_def split: sum.splits)

lemma buildHistoryMap_foldl:
  "foldl (\<lambda>accumulator (t, points). accumulator(t := points)) acc (map (\<lambda>t. (t, f t)) ts) t =
     (if t \<in> set ts then f t else acc t)"
  by (induction ts arbitrary: acc) auto

lemma historyMapOf_apply:
  "t \<in> set (simTickers request) \<Longrightarrow> historyMapOf market request t = seriesOf market request t"
  by (simp add: historyMapOf_def buildHistoryMap_def buildHistoryMap_foldl)

lemma simTickers_mem:
  "a \<in> set (eligibleAllocations request) \<Longrightarrow> ticker a \<in> set (simTickers request)"
  "toUpperCase (benchmarkTicker request) \<in> set (simTickers request)"
  by (simp_all add: simTickers_def set_uniqueInOrder)

lemma runSimulation_no_eligible:
  "eligibleAllocations request = [] \<Longrightarrow>
   runSimulation market request = ([], Inl NoPositiveWeightError)"
  by (simp add: runSimulation_def eligibleAllocations_def Let_def)

lemma runSimulation_fetched:
  assumes "eligibleAllocations request \<noteq> []"
    and "\<forall>t \<in> set (simTickers request). fetchSucceeds market request t"
  shows "runSimulation market request =
     (simTickers request,
      if length (tradingDaysOf market request) < 2 then Inl InsufficientDaysError
      else Inr (resultOf request
                  (dayLoop (simEnv market request) 0 (tradingDaysOf market request)
                     (initialState request))))"
proof -
  have ch: "collectHistories
        (map (\<lambda>t. (t, market t (startDate request) (endDate request))) (simTickers request)) =
      Inr (map (\<lambda>t. (t, seriesOf market request t)) (simTickers request))"
    using assms(2) by (rule collectHistories_success)
  have ch': "collectHistories
        (map (\<lambda>t. (t, market t (startDate request) (endDate request)))
           (uniqueInOrder (map ticker (filter (\<lambda>allocation. weight allocation > 0)
               (normalizeAllocations (allocations request))) @ [toUpperCase (benchmarkTicker request)]))) =
      Inr (map (\<lambda>t. (t, seriesOf market request t)) (simTickers request))"
    using ch by (simp add: simTickers_def eligibleAllocations_def)
  from assms(1) show ?thesis
    by (simp add: runSimulation_def Let_def ch' resultOf_def simEnv_def initialState_def
          tradingDaysOf_def historyMapOf_def simTickers_def eligibleAllocations_def)
qed

subsection \<open>From the schema to the simulator\<close>

text \<open>
  What the schema gives the simulator: the route calls \<^verbatim>\<open>runSimulation\<close> on the parsed
  request, whose reserve is not negative, whose expense ratios are at most 0.05 and whose
  normalised tickers are distinct.
\<close>

lemma uniqueInOrder_foldl_distinct:
  "distinct acc \<Longrightarrow>
   distinct (foldl (\<lambda>seen x. if x \<in> set seen then seen else seen @ [x]) acc xs)"
  by (induction xs arbitrary: acc) simp_all

lemma distinct_uniqueInOrder: "distinct (uniqueInOrder xs)"
  by (simp add: uniqueInOrder_def uniqueInOrder_foldl_distinct)

lemma uniqueInOrder_length_distinct:
  assumes "length (uniqueInOrder xs) = length xs"
  shows "distinct xs"
proof -
  have "card (set xs) = card (set (uniqueInOrder xs))" by (simp add: set_uniqueInOrder)
  also have "\<dots> = length (uniqueInOrder xs)"
    using distinct_uniqueInOrder by (rule distinct_card)
  finally show ?thesis using assms by (simp add: card_distinct)
qed

lemma schema_ok_simulator_input:
  assumes "simulationRequestSchema_ok value"
  shows "0 \<le> minimumCashReserve (parsedRequest value)
       \<and> (\<forall>x \<in> set (allocations (parsedRequest value)). in_expenseRatio x \<le> 5 / 100)
       \<and> distinct (map ticker (eligibleAllocations (parsedRequest value)))"
proof -
  from assms have b: "baseSchema_ok value" and s: "superRefineIssues (parsedRequest value) = []"
    by (simp_all add: simulationRequestSchema_ok_def)
  from b have r: "0 \<le> minimumCashReserve (parsedRequest value)"
    by (simp add: baseSchema_ok_def parsedRequest_def)
  from b have f: "\<forall>x \<in> set (allocations (parsedRequest value)). in_expenseRatio x \<le> 5 / 100"
    by (auto simp add: baseSchema_ok_def parsedRequest_def list_all_iff allocationSchema_ok_def)
  from s have "length (uniqueInOrder (map (\<lambda>allocation. toUpperCase (in_ticker allocation))
                 (allocations (parsedRequest value)))) = length (allocations (parsedRequest value))"
    by (simp add: superRefineIssues_def Let_def split: if_splits)
  then have "distinct (map (\<lambda>allocation. toUpperCase (in_ticker allocation))
                 (allocations (parsedRequest value)))"
    using uniqueInOrder_length_distinct [of "map (\<lambda>allocation. toUpperCase (in_ticker allocation))
                 (allocations (parsedRequest value))"] by simp
  then have "distinct (map ticker (normalizeAllocations (allocations (parsedRequest value))))"
    by (simp add: normalizeAllocations_def comp_def)
  then have d: "distinct (map ticker (eligibleAllocations (parsedRequest value)))"
    unfolding eligibleAllocations_def by (rule distinct_map_filter)
  from r f d show ?thesis by blast
qed

subsection \<open>A run, evaluated\<close>

text \<open>The concrete request and its markets, evaluated.\<close>

lemma upper_aaa: "toUpperCase ''aaa'' = ''AAA''" "toUpperCase ''bbb'' = ''BBB''"
  by (simp_all add: toUpperCase_def upperChar_def)

lemma upper_tickers: "toUpperCase ''SPY'' = ''SPY''" "toUpperCase ''QQQ'' = ''QQQ''"
  by (simp_all add: toUpperCase_def upperChar_def)

lemma ex_fields:
  "benchmarkTicker exRequest = ''aaa''" "startDate exRequest = ''2024-01-02''"
  "endDate exRequest = ''2024-01-05''" "initialAmount exRequest = 1000"
  "monthlySalary exRequest = 0" "monthlyContribution exRequest = 0"
  "minimumCashReserve exRequest = 0" "dividendPolicy exRequest = reinvest_same_asset"
  "allocations exRequest =
     [\<lparr>in_ticker = ''aaa'', targetWeight = 100, in_expenseRatio = 0\<rparr>,
      \<lparr>in_ticker = ''bbb'', targetWeight = 0, in_expenseRatio = 0\<rparr>]"
  by (simp_all add: exRequest_def)

lemma ex_eligible:
  "eligibleAllocations exRequest = [\<lparr>ticker = ''AAA'', weight = 1, expenseRatio = 0\<rparr>]"
  by (simp add: eligibleAllocations_def normalizeAllocations_def ex_fields upper_aaa)

lemma ex_tickers: "simTickers exRequest = [''AAA'']"
  by (simp add: simTickers_def ex_eligible uniqueInOrder_def ex_fields upper_aaa)

lemma ex_initial:
  "initialState exRequest =
     \<lparr>st_holdings = [''AAA'' \<mapsto> 0], st_cashValue = 0, st_benchmarkShares = 0, st_totalInvested = 0,
      st_contributions = 0, st_netFlow = 0, st_timeline = []\<rparr>"
  by (simp add: initialState_def ex_eligible newMap_def)

lemma jan_keys:
  "monthKey ''2024-01-02'' = ''2024-0''" "monthKey ''2024-01-03'' = ''2024-0''"
  "monthKey ''2024-01-04'' = ''2024-0''"
  by (simp_all add: cal_defs showNat.simps)

lemma jan_schedules:
  "buildTradingSchedules [''2024-01-02'', ''2024-01-03'', ''2024-01-04''] =
     \<lparr>contributionDays = {''2024-01-02''}, rebalanceDays = {''2024-01-02''}\<rparr>"
proof -
  have q: "isQuarterStartDay ''2024-01-02''" by (simp add: cal_defs)
  have s: "sortIsoDates [''2024-01-02'', ''2024-01-03'', ''2024-01-04'']
      = [''2024-01-02'', ''2024-01-03'', ''2024-01-04'']"
    by (simp add: sortIsoDates_def)
  show ?thesis unfolding buildTradingSchedules_def s Let_def by (simp add: jan_keys q)
qed

lemma cex_series:
  "seriesOf cexMarket exRequest ''AAA'' =
     [plainPoint ''2024-01-02'' 100, plainPoint ''2024-01-03'' (- 50), plainPoint ''2024-01-04'' 100]"
  "seriesOf cexMarket exRequest ''BBB'' =
     [plainPoint ''2024-01-02'' 30, plainPoint ''2024-01-03'' 31]"
  by (simp_all add: seriesOf_def cexMarket_def)

lemma cex_history:
  "historyMapOf cexMarket exRequest ''AAA'' =
     [plainPoint ''2024-01-02'' 100, plainPoint ''2024-01-03'' (- 50), plainPoint ''2024-01-04'' 100]"
  by (simp add: historyMapOf_def buildHistoryMap_def ex_tickers cex_series)

lemma cex_days:
  "tradingDaysOf cexMarket exRequest = [''2024-01-02'', ''2024-01-03'', ''2024-01-04'']"
  by (simp add: tradingDaysOf_def ex_eligible cex_history intersectDates_def sortIsoDates_def
        plainPoint_def ex_fields upper_aaa)

lemma cex_maps:
  "toCloseMap (historyMapOf cexMarket exRequest ''AAA'') =
     [''2024-01-02'' \<mapsto> 100, ''2024-01-03'' \<mapsto> - 50, ''2024-01-04'' \<mapsto> 100]"
  "toAdjustedMap (historyMapOf cexMarket exRequest ''AAA'') =
     [''2024-01-02'' \<mapsto> 100, ''2024-01-03'' \<mapsto> - 50, ''2024-01-04'' \<mapsto> 100]"
  "toDividendMap (historyMapOf cexMarket exRequest ''AAA'') = Map.empty"
  "toSplitMap (historyMapOf cexMarket exRequest ''AAA'') = Map.empty"
  by (simp_all add: cex_history toCloseMap_def toAdjustedMap_def toDividendMap_def toSplitMap_def
        newMap_def plainPoint_def)

lemma cex_env:
  "env_request (simEnv cexMarket exRequest) = exRequest"
  "env_allocations (simEnv cexMarket exRequest) =
     [\<lparr>ticker = ''AAA'', weight = 1, expenseRatio = 0\<rparr>]"
  "env_benchmarkTicker (simEnv cexMarket exRequest) = ''AAA''"
  "env_closeMaps (simEnv cexMarket exRequest) ''AAA'' =
     [''2024-01-02'' \<mapsto> 100, ''2024-01-03'' \<mapsto> - 50, ''2024-01-04'' \<mapsto> 100]"
  "env_adjustedMaps (simEnv cexMarket exRequest) ''AAA'' =
     [''2024-01-02'' \<mapsto> 100, ''2024-01-03'' \<mapsto> - 50, ''2024-01-04'' \<mapsto> 100]"
  "env_dividendMaps (simEnv cexMarket exRequest) ''AAA'' = Map.empty"
  "env_splitMaps (simEnv cexMarket exRequest) ''AAA'' = Map.empty"
  "env_schedules (simEnv cexMarket exRequest) =
     \<lparr>contributionDays = {''2024-01-02''}, rebalanceDays = {''2024-01-02''}\<rparr>"
  "env_totalStockWeight (simEnv cexMarket exRequest) = 1"
  by (simp_all add: simEnv_def ex_eligible cex_maps cex_days jan_schedules ex_fields
        upper_aaa getTotalStockWeight_def)

lemmas step_defs = dayStep_def eventsStep_def initialStep_def contributionStep_def expenseStep_def
  rebalanceStep_def recordStep_def Let_def orZero_def computeDesiredStockBudget_def
  investByRelativeStockWeights_def getTotalStockWeight_def computeStockValue_def
  computePortfolioValue_def MONTHLY_LIVING_COST_def TRADING_DAYS_PER_YEAR_def

lemma cex_day1:
  "dayStep (simEnv cexMarket exRequest) 0 ''2024-01-02'' (initialState exRequest)
   = \<lparr>st_holdings = [''AAA'' \<mapsto> 10], st_cashValue = 0, st_benchmarkShares = 10,
      st_totalInvested = 1000, st_contributions = 0, st_netFlow = 1000,
      st_timeline =
        [\<lparr>tl_date = ''2024-01-02'', stockValue = 1000, cashValue = 0, portfolioValue = 1000,
          benchmarkValue = 1000, investedCapital = 1000, netFlow = 1000\<rparr>]\<rparr>"
  by (simp add: step_defs cex_env ex_fields ex_initial)

lemma cex_day2:
  "dayStep (simEnv cexMarket exRequest) (Suc 0) ''2024-01-03''
     \<lparr>st_holdings = [''AAA'' \<mapsto> 10], st_cashValue = 0, st_benchmarkShares = 10,
      st_totalInvested = 1000, st_contributions = 0, st_netFlow = 1000,
      st_timeline =
        [\<lparr>tl_date = ''2024-01-02'', stockValue = 1000, cashValue = 0, portfolioValue = 1000,
          benchmarkValue = 1000, investedCapital = 1000, netFlow = 1000\<rparr>]\<rparr>
   = \<lparr>st_holdings = [''AAA'' \<mapsto> 10], st_cashValue = 0, st_benchmarkShares = 10,
      st_totalInvested = 1000, st_contributions = 0, st_netFlow = 0,
      st_timeline =
        [\<lparr>tl_date = ''2024-01-02'', stockValue = 1000, cashValue = 0, portfolioValue = 1000,
          benchmarkValue = 1000, investedCapital = 1000, netFlow = 1000\<rparr>,
         \<lparr>tl_date = ''2024-01-03'', stockValue = - 500, cashValue = 0, portfolioValue = - 500,
          benchmarkValue = - 500, investedCapital = 1000, netFlow = 0\<rparr>]\<rparr>"
  by (simp add: step_defs cex_env ex_fields)

lemma cex_day3:
  "dayStep (simEnv cexMarket exRequest) (Suc (Suc 0)) ''2024-01-04''
     \<lparr>st_holdings = [''AAA'' \<mapsto> 10], st_cashValue = 0, st_benchmarkShares = 10,
      st_totalInvested = 1000, st_contributions = 0, st_netFlow = 0,
      st_timeline =
        [\<lparr>tl_date = ''2024-01-02'', stockValue = 1000, cashValue = 0, portfolioValue = 1000,
          benchmarkValue = 1000, investedCapital = 1000, netFlow = 1000\<rparr>,
         \<lparr>tl_date = ''2024-01-03'', stockValue = - 500, cashValue = 0, portfolioValue = - 500,
          benchmarkValue = - 500, investedCapital = 1000, netFlow = 0\<rparr>]\<rparr>
   = \<lparr>st_holdings = [''AAA'' \<mapsto> 10], st_cashValue = 0, st_benchmarkShares = 10,
      st_totalInvested = 1000, st_contributions = 0, st_netFlow = 0,
      st_timeline =
        [\<lparr>tl_date = ''2024-01-02'', stockValue = 1000, cashValue = 0, portfolioValue = 1000,
          benchmarkValue = 1000, investedCapital = 1000, netFlow = 1000\<rparr>,
         \<lparr>tl_date = ''2024-01-03'', stockValue = - 500, cashValue = 0, portfolioValue = - 500,
          benchmarkValue = - 500, investedCapital = 1000, netFlow = 0\<rparr>,
         \<lparr>tl_date = ''2024-01-04'', stockValue = 1000, cashValue = 0, portfolioValue = 1000,
          benchmarkValue = 1000, investedCapital = 1000, netFlow = 0\<rparr>]\<rparr>"
  by (simp add: step_defs cex_env ex_fields)

lemma cex_run:
  "runSimulation cexMarket exRequest =
     ([''AAA''],
      Inr \<lparr>timeline =
        [\<lparr>tl_date = ''2024-01-02'', stockValue = 1000, cashValue = 0, portfolioValue = 1000,
          benchmarkValue = 1000, investedCapital = 1000, netFlow = 1000\<rparr>,
         \<lparr>tl_date = ''2024-01-03'', stockValue = - 500, cashValue = 0, portfolioValue = - 500,
          benchmarkValue = - 500, investedCapital = 1000, netFlow = 0\<rparr>,
         \<lparr>tl_date = ''2024-01-04'', stockValue = 1000, cashValue = 0, portfolioValue = 1000,
          benchmarkValue = 1000, investedCapital = 1000, netFlow = 0\<rparr>],
        initialPrincipal = 1000, contributions = 0, totalInvested = 1000, endingCash = 0,
        endingStockValue = 1000\<rparr>)"
proof -
  have el: "eligibleAllocations exRequest \<noteq> []" by (simp add: ex_eligible)
  have f: "\<forall>t \<in> set (simTickers exRequest). fetchSucceeds cexMarket exRequest t"
    by (simp add: ex_tickers fetchSucceeds_def cexMarket_def)
  show ?thesis
    unfolding runSimulation_fetched [OF el f] cex_days
    by (simp add: ex_tickers cex_day1 cex_day2 cex_day3 resultOf_def ex_fields)
qed

lemma ex_schema: "simulationRequestSchema_ok exRequest"
proof -
  have t: "trim ''aaa'' = ''aaa''" "trim ''bbb'' = ''bbb''"
    by (simp_all add: trim_def isSpace_def)
  have d: "\<not> startNotBeforeEnd ''2024-01-02'' ''2024-01-05''"
    by (simp add: startNotBeforeEnd_def cal_defs)
  have b: "baseSchema_ok exRequest"
    by (simp add: baseSchema_ok_def ex_fields allocationSchema_ok_def t isDigit_def exRequest_def)
  have p: "parsedRequest exRequest = exRequest"
    by (simp add: parsedRequest_def exRequest_def t)
  have s: "superRefineIssues exRequest = []"
    by (simp add: superRefineIssues_def ex_fields d totalTargetWeight_def upper_aaa
          uniqueInOrder_def Let_def)
  from b p s show ?thesis by (simp add: simulationRequestSchema_ok_def)
qed

subsection \<open>The day loop: the dates of the timeline\<close>

text \<open>Only the last step of a day writes the timeline.\<close>

lemma timeline_eventsStep [simp]: "st_timeline (eventsStep env day st) = st_timeline st"
  by (simp add: eventsStep_def Let_def case_prod_beta)

lemma timeline_initialStep [simp]: "st_timeline (initialStep env index day st) = st_timeline st"
  by (simp add: initialStep_def Let_def case_prod_beta)

lemma timeline_contributionStep [simp]: "st_timeline (contributionStep env day st) = st_timeline st"
  by (simp add: contributionStep_def Let_def case_prod_beta)

lemma timeline_expenseStep [simp]: "st_timeline (expenseStep env st) = st_timeline st"
  by (simp add: expenseStep_def)

lemma timeline_rebalanceStep [simp]: "st_timeline (rebalanceStep env index day st) = st_timeline st"
  by (simp add: rebalanceStep_def Let_def case_prod_beta)

lemma dates_dayStep:
  "map tl_date (st_timeline (dayStep env index day st)) = map tl_date (st_timeline st) @ [day]"
  by (simp add: dayStep_def recordStep_def Let_def)

lemma dates_dayLoop:
  "map tl_date (st_timeline (dayLoop env index days st)) = map tl_date (st_timeline st) @ days"
  by (induction days arbitrary: index st) (simp_all add: dates_dayStep)

subsection \<open>The outcomes of \<^verbatim>\<open>runSimulation\<close>\<close>

lemma collectHistories_failure:
  "\<not> (\<forall>t \<in> set ts. fetchSucceeds market request t) \<Longrightarrow>
   \<exists>message. collectHistories (map (\<lambda>t. (t, market t (startDate request) (endDate request))) ts) =
     Inl message"
  by (induction ts) (auto simp add: fetchSucceeds_def split: sum.splits)

lemma runSimulation_fetch_failed:
  assumes "eligibleAllocations request \<noteq> []"
    and "\<not> (\<forall>t \<in> set (simTickers request). fetchSucceeds market request t)"
  shows "\<exists>message. runSimulation market request = (simTickers request, Inl (YahooDataError message))"
proof -
  from collectHistories_failure [OF assms(2)] obtain message where
    "collectHistories
        (map (\<lambda>t. (t, market t (startDate request) (endDate request))) (simTickers request)) =
      Inl message" by blast
  then have "collectHistories
        (map (\<lambda>t. (t, market t (startDate request) (endDate request)))
           (uniqueInOrder (map ticker (filter (\<lambda>allocation. weight allocation > 0)
               (normalizeAllocations (allocations request))) @ [toUpperCase (benchmarkTicker request)]))) =
      Inl message"
    by (simp add: simTickers_def eligibleAllocations_def)
  with assms(1) have "runSimulation market request = (simTickers request, Inl (YahooDataError message))"
    by (simp add: runSimulation_def Let_def simTickers_def eligibleAllocations_def)
  then show ?thesis by blast
qed

lemma runSimulation_Inr:
  assumes "snd (runSimulation market request) = Inr res"
  shows "eligibleAllocations request \<noteq> []
       \<and> (\<forall>t \<in> set (simTickers request). fetchSucceeds market request t)
       \<and> 2 \<le> length (tradingDaysOf market request)
       \<and> res = resultOf request
                 (dayLoop (simEnv market request) 0 (tradingDaysOf market request)
                    (initialState request))"
proof -
  have e: "eligibleAllocations request \<noteq> []"
  proof
    assume "eligibleAllocations request = []"
    from runSimulation_no_eligible [OF this, of market] assms show False by simp
  qed
  have f: "\<forall>t \<in> set (simTickers request). fetchSucceeds market request t"
  proof (rule ccontr)
    assume "\<not> (\<forall>t \<in> set (simTickers request). fetchSucceeds market request t)"
    from runSimulation_fetch_failed [OF e this] assms show False by auto
  qed
  from runSimulation_fetched [OF e f] assms show ?thesis
    by (auto simp add: e f split: if_splits)
qed

subsection \<open>The trading days of a run\<close>

text \<open>The trading days of a run are the overlapping days.\<close>

lemma intersectDates_strict:
  assumes "sorted_wrt (<) first"
  shows "intersectDates (first # rest) =
           sorted_list_of_set (set first \<inter> {d. \<forall>dates \<in> set rest. d \<in> set dates})"
proof -
  let ?xs = "filter (\<lambda>d. list_all (\<lambda>dates. List.member dates d) rest) first"
  from assms have sd: "sorted first" "distinct first" by (simp_all add: strict_sorted_iff)
  then have "sortIsoDates first = first" by (simp add: sortIsoDates_def sorted_sort_id)
  then have eq: "intersectDates (first # rest) = ?xs" by (simp add: intersectDates_def)
  from assms have "sorted_wrt (<) ?xs" by (rule sorted_wrt_filter)
  then have "sorted ?xs" "distinct ?xs" by (simp_all add: strict_sorted_iff)
  moreover have "set ?xs = set first \<inter> {d. \<forall>dates \<in> set rest. d \<in> set dates}"
    by (auto simp add: list_all_iff)
  ultimately have "sorted_list_of_set (set first \<inter> {d. \<forall>dates \<in> set rest. d \<in> set dates}) = ?xs"
    by (metis sorted_list_of_set.idem_if_sorted_distinct)
  with eq show ?thesis by simp
qed

lemma tradingDaysOf_overlapping:
  assumes "eligibleAllocations request \<noteq> []"
    and "\<forall>t \<in> set (simTickers request). sorted_wrt (<) (map date (seriesOf market request t))"
  shows "tradingDaysOf market request = overlappingDays market request"
proof -
  from assms(1) obtain a0 rest where el: "eligibleAllocations request = a0 # rest"
    by (cases "eligibleAllocations request") auto
  let ?dates = "\<lambda>t. map date (seriesOf market request t)"
  let ?bench = "toUpperCase (benchmarkTicker request)"
  have hist: "map date (historyMapOf market request (ticker a)) = ?dates (ticker a)"
    if "a \<in> set (eligibleAllocations request)" for a
    using that by (simp add: historyMapOf_apply simTickers_mem)
  have histb: "map date (historyMapOf market request ?bench) = ?dates ?bench"
    by (simp add: historyMapOf_apply simTickers_mem)
  have td: "tradingDaysOf market request =
      intersectDates (?dates (ticker a0) # (map (\<lambda>a. ?dates (ticker a)) rest @ [?dates ?bench]))"
  proof -
    have "map (\<lambda>a. map date (historyMapOf market request (ticker a))) (eligibleAllocations request)
        = map (\<lambda>a. ?dates (ticker a)) (eligibleAllocations request)"
      by (rule map_cong [OF refl]) (rule hist)
    then have "tradingDaysOf market request =
        intersectDates (map (\<lambda>a. ?dates (ticker a)) (eligibleAllocations request) @ [?dates ?bench])"
      by (simp only: tradingDaysOf_def histb)
    then show ?thesis by (simp add: el)
  qed
  have "ticker a0 \<in> set (simTickers request)" by (simp add: simTickers_mem el)
  with assms(2) have "sorted_wrt (<) (?dates (ticker a0))" by blast
  from intersectDates_strict [OF this] td
  have "tradingDaysOf market request =
      sorted_list_of_set (set (?dates (ticker a0))
        \<inter> {d. \<forall>dates \<in> set (map (\<lambda>a. ?dates (ticker a)) rest @ [?dates ?bench]). d \<in> set dates})"
    by simp
  also have "set (?dates (ticker a0))
        \<inter> {d. \<forall>dates \<in> set (map (\<lambda>a. ?dates (ticker a)) rest @ [?dates ?bench]). d \<in> set dates}
      = (\<Inter>a \<in> set (eligibleAllocations request). set (?dates (ticker a))) \<inter> set (?dates ?bench)"
    by (auto simp add: el)
  finally show ?thesis by (simp add: overlappingDays_def)
qed

lemma strict_sorted_overlappingDays: "sorted_wrt (<) (overlappingDays market request)"
  by (simp add: overlappingDays_def)

text \<open>
  Without the order, the trading days are still as many as the overlapping days when no series
  has two points of one date.
\<close>

lemma intersectDates_length:
  assumes "distinct first"
  shows "length (intersectDates (first # rest)) =
           card (set first \<inter> {d. \<forall>dates \<in> set rest. d \<in> set dates})"
proof -
  let ?xs = "filter (\<lambda>d. list_all (\<lambda>dates. List.member dates d) rest) (sortIsoDates first)"
  have eq: "intersectDates (first # rest) = ?xs" by (simp add: intersectDates_def)
  from assms have "distinct ?xs" by (simp add: sortIsoDates_def)
  then have "card (set ?xs) = length ?xs" by (rule distinct_card)
  moreover have "set ?xs = set first \<inter> {d. \<forall>dates \<in> set rest. d \<in> set dates}"
    by (auto simp add: list_all_iff sortIsoDates_def)
  ultimately show ?thesis using eq by simp
qed

lemma tradingDaysOf_length:
  assumes "eligibleAllocations request \<noteq> []"
    and "\<forall>t \<in> set (simTickers request). distinct (map date (seriesOf market request t))"
  shows "length (tradingDaysOf market request) = length (overlappingDays market request)"
proof -
  from assms(1) obtain a0 rest where el: "eligibleAllocations request = a0 # rest"
    by (cases "eligibleAllocations request") auto
  let ?dates = "\<lambda>t. map date (seriesOf market request t)"
  let ?bench = "toUpperCase (benchmarkTicker request)"
  have hist: "map date (historyMapOf market request (ticker a)) = ?dates (ticker a)"
    if "a \<in> set (eligibleAllocations request)" for a
    using that by (simp add: historyMapOf_apply simTickers_mem)
  have histb: "map date (historyMapOf market request ?bench) = ?dates ?bench"
    by (simp add: historyMapOf_apply simTickers_mem)
  have td: "tradingDaysOf market request =
      intersectDates (?dates (ticker a0) # (map (\<lambda>a. ?dates (ticker a)) rest @ [?dates ?bench]))"
  proof -
    have "map (\<lambda>a. map date (historyMapOf market request (ticker a))) (eligibleAllocations request)
        = map (\<lambda>a. ?dates (ticker a)) (eligibleAllocations request)"
      by (rule map_cong [OF refl]) (rule hist)
    then have "tradingDaysOf market request =
        intersectDates (map (\<lambda>a. ?dates (ticker a)) (eligibleAllocations request) @ [?dates ?bench])"
      by (simp only: tradingDaysOf_def histb)
    then show ?thesis by (simp add: el)
  qed
  have "ticker a0 \<in> set (simTickers request)" by (simp add: simTickers_mem el)
  with assms(2) have "distinct (?dates (ticker a0))" by blast
  from intersectDates_length [OF this] td
  have "length (tradingDaysOf market request) =
      card (set (?dates (ticker a0))
        \<inter> {d. \<forall>dates \<in> set (map (\<lambda>a. ?dates (ticker a)) rest @ [?dates ?bench]). d \<in> set dates})"
    by simp
  also have "set (?dates (ticker a0))
        \<inter> {d. \<forall>dates \<in> set (map (\<lambda>a. ?dates (ticker a)) rest @ [?dates ?bench]). d \<in> set dates}
      = (\<Inter>a \<in> set (eligibleAllocations request). set (?dates (ticker a))) \<inter> set (?dates ?bench)"
    by (auto simp add: el)
  finally show ?thesis by (simp add: overlappingDays_def)
qed

subsection \<open>C1: the timeline of a run\<close>

text \<open>
  Claim C1, as amended. For every request with at least one allocation of positive weight,
  and for price series that are fetched for every ticker of the run, strictly ascending by
  date, and with at least 2 overlapping trading days: the run succeeds, the dates of its
  timeline are exactly the overlapping trading days (the dates shared by the series of every
  allocation of positive weight and the series of the benchmark, sorted ascending), one point
  per day, strictly increasing. The sign of the portfolio value is left out: it is negative on
  a negative close, as the run below shows, and after a purchase it hangs on the rounding of
  doubles, which the exact arithmetic of the model does not show.
\<close>

theorem C1_timeline:
  assumes pos: "\<exists>a \<in> set (allocations request). 0 < targetWeight a"
    and fetch: "\<forall>t \<in> set (simTickers request). fetchSucceeds market request t"
    and asc: "\<forall>t \<in> set (simTickers request).
                sorted_wrt (<) (map date (seriesOf market request t))"
    and two: "2 \<le> length (overlappingDays market request)"
  shows "\<exists>res. snd (runSimulation market request) = Inr res
       \<and> map tl_date (timeline res) = overlappingDays market request
       \<and> length (timeline res) = length (overlappingDays market request)
       \<and> sorted_wrt (<) (map tl_date (timeline res))"
proof -
  let ?final = "dayLoop (simEnv market request) 0 (tradingDaysOf market request)
                  (initialState request)"
  from pos obtain x where "x \<in> set (allocations request)" "0 < targetWeight x" by blast
  then have el: "eligibleAllocations request \<noteq> []"
    by (auto simp add: eligibleAllocations_def normalizeAllocations_def filter_empty_conv)
  have td: "tradingDaysOf market request = overlappingDays market request"
    using el asc by (rule tradingDaysOf_overlapping)
  from runSimulation_fetched [OF el fetch] two
  have run: "snd (runSimulation market request) = Inr (resultOf request ?final)"
    by (simp add: td)
  have dates: "map tl_date (timeline (resultOf request ?final)) = overlappingDays market request"
    by (simp add: resultOf_def dates_dayLoop initialState_def td)
  then have "length (map tl_date (timeline (resultOf request ?final)))
      = length (overlappingDays market request)" by simp
  then have len: "length (timeline (resultOf request ?final))
      = length (overlappingDays market request)" by simp
  from dates have srt: "sorted_wrt (<) (map tl_date (timeline (resultOf request ?final)))"
    by (simp add: strict_sorted_overlappingDays)
  from run dates len srt show ?thesis by blast
qed

text \<open>
  Claim C1 as stated fails on a request that the schema accepts: 100% of AAA, which is also
  the benchmark, beside BBB at weight 0, with 1000 at the start. AAA closes at 100, -50 and 100
  on three days; BBB has the first two days only. The dates that the series of all allocation
  tickers and of the benchmark share are the first two days, but BBB is dropped by the filter
  on the weight and the timeline has three points; and the ten shares bought at 100 are worth
  -500 on the second day, where the portfolio value is negative.
\<close>

theorem C1_timeline_counterexample:
  "simulationRequestSchema_ok exRequest
   \<and> seriesOf cexMarket exRequest ''AAA'' =
       [plainPoint ''2024-01-02'' 100, plainPoint ''2024-01-03'' (- 50),
        plainPoint ''2024-01-04'' 100]
   \<and> seriesOf cexMarket exRequest ''BBB'' =
       [plainPoint ''2024-01-02'' 30, plainPoint ''2024-01-03'' 31]
   \<and> set (map date (seriesOf cexMarket exRequest ''AAA''))
       \<inter> set (map date (seriesOf cexMarket exRequest ''BBB''))
       \<inter> set (map date (seriesOf cexMarket exRequest (toUpperCase (benchmarkTicker exRequest))))
       = {''2024-01-02'', ''2024-01-03''}
   \<and> snd (runSimulation cexMarket exRequest) =
      Inr \<lparr>timeline =
        [\<lparr>tl_date = ''2024-01-02'', stockValue = 1000, cashValue = 0, portfolioValue = 1000,
          benchmarkValue = 1000, investedCapital = 1000, netFlow = 1000\<rparr>,
         \<lparr>tl_date = ''2024-01-03'', stockValue = - 500, cashValue = 0, portfolioValue = - 500,
          benchmarkValue = - 500, investedCapital = 1000, netFlow = 0\<rparr>,
         \<lparr>tl_date = ''2024-01-04'', stockValue = 1000, cashValue = 0, portfolioValue = 1000,
          benchmarkValue = 1000, investedCapital = 1000, netFlow = 0\<rparr>],
        initialPrincipal = 1000, contributions = 0, totalInvested = 1000, endingCash = 0,
        endingStockValue = 1000\<rparr>"
proof -
  have "set (map date (seriesOf cexMarket exRequest ''AAA''))
       \<inter> set (map date (seriesOf cexMarket exRequest ''BBB''))
       \<inter> set (map date (seriesOf cexMarket exRequest (toUpperCase (benchmarkTicker exRequest))))
       = {''2024-01-02'', ''2024-01-03''}"
    by (simp add: cex_series ex_fields upper_aaa plainPoint_def)
  with ex_schema cex_series cex_run show ?thesis by simp
qed

text \<open>A run on three rising closes.\<close>

lemma ex_series:
  "seriesOf exMarket exRequest ''AAA'' =
     [plainPoint ''2024-01-02'' 100, plainPoint ''2024-01-03'' 110, plainPoint ''2024-01-04'' 120]"
  by (simp add: seriesOf_def exMarket_def)

lemma ex_fetch: "\<forall>t \<in> set (simTickers exRequest). fetchSucceeds exMarket exRequest t"
  by (simp add: ex_tickers fetchSucceeds_def exMarket_def)

lemma ex_ascending:
  "\<forall>t \<in> set (simTickers exRequest). sorted_wrt (<) (map date (seriesOf exMarket exRequest t))"
  by (simp add: ex_tickers ex_series plainPoint_def)

lemma ex_days:
  "tradingDaysOf exMarket exRequest = [''2024-01-02'', ''2024-01-03'', ''2024-01-04'']"
proof -
  have "historyMapOf exMarket exRequest ''AAA'' = seriesOf exMarket exRequest ''AAA''"
    by (rule historyMapOf_apply) (simp add: ex_tickers)
  then show ?thesis
    by (simp add: tradingDaysOf_def ex_eligible ex_series intersectDates_def sortIsoDates_def
          plainPoint_def ex_fields upper_aaa)
qed

lemma ex_overlapping:
  "overlappingDays exMarket exRequest = [''2024-01-02'', ''2024-01-03'', ''2024-01-04'']"
proof -
  have "eligibleAllocations exRequest \<noteq> []" by (simp add: ex_eligible)
  from tradingDaysOf_overlapping [OF this ex_ascending] ex_days show ?thesis by simp
qed

theorem C1_timeline_witness:
  "list_ex (\<lambda>a. 0 < targetWeight a) (allocations exRequest)
   \<and> list_all (fetchSucceeds exMarket exRequest) (simTickers exRequest)
   \<and> list_all (\<lambda>t. sorted_wrt (<) (map date (seriesOf exMarket exRequest t))) (simTickers exRequest)
   \<and> 2 \<le> length (overlappingDays exMarket exRequest)
   \<and> (\<exists>res. snd (runSimulation exMarket exRequest) = Inr res
        \<and> map tl_date (timeline res) = [''2024-01-02'', ''2024-01-03'', ''2024-01-04'']
        \<and> length (timeline res) = 3)"
proof -
  have pos: "\<exists>a \<in> set (allocations exRequest). 0 < targetWeight a" by (simp add: ex_fields)
  have two: "2 \<le> length (overlappingDays exMarket exRequest)" by (simp add: ex_overlapping)
  from C1_timeline [OF pos ex_fetch ex_ascending two]
  obtain res where res: "snd (runSimulation exMarket exRequest) = Inr res"
    "map tl_date (timeline res) = overlappingDays exMarket exRequest"
    "length (timeline res) = length (overlappingDays exMarket exRequest)" by blast
  then have "\<exists>res. snd (runSimulation exMarket exRequest) = Inr res
        \<and> map tl_date (timeline res) = [''2024-01-02'', ''2024-01-03'', ''2024-01-04'']
        \<and> length (timeline res) = 3"
    by (auto simp add: ex_overlapping)
  with pos ex_fetch ex_ascending two show ?thesis
    by (simp add: list_all_iff list_ex_iff)
qed

subsection \<open>C7: the two failures of a run\<close>

lemma zero_fields:
  "allocations zeroWeightRequest = [\<lparr>in_ticker = ''aaa'', targetWeight = 0, in_expenseRatio = 0\<rparr>]"
  by (simp add: zeroWeightRequest_def)

text \<open>Two runs that return a timeline, up to the dates of its points.\<close>

lemma shared_series:
  "seriesOf oneSharedDayMarket exRequest ''AAA'' =
     [plainPoint ''2024-01-02'' 100, plainPoint ''2024-01-03'' 110]"
  "seriesOf oneSharedDayMarket exRequest ''BBB'' =
     [plainPoint ''2024-01-03'' 30, plainPoint ''2024-01-04'' 31]"
  by (simp_all add: seriesOf_def oneSharedDayMarket_def)

lemma shared_fetch:
  "\<forall>t \<in> set (simTickers exRequest). fetchSucceeds oneSharedDayMarket exRequest t"
  by (simp add: ex_tickers fetchSucceeds_def oneSharedDayMarket_def)

lemma shared_days:
  "tradingDaysOf oneSharedDayMarket exRequest = [''2024-01-02'', ''2024-01-03'']"
proof -
  have "historyMapOf oneSharedDayMarket exRequest ''AAA''
      = seriesOf oneSharedDayMarket exRequest ''AAA''"
    by (rule historyMapOf_apply) (simp add: ex_tickers)
  then show ?thesis
    by (simp add: tradingDaysOf_def ex_eligible shared_series intersectDates_def sortIsoDates_def
          plainPoint_def ex_fields upper_aaa)
qed

lemma shared_run:
  "\<exists>res. runSimulation oneSharedDayMarket exRequest = ([''AAA''], Inr res)
       \<and> map tl_date (timeline res) = [''2024-01-02'', ''2024-01-03'']"
proof -
  have el: "eligibleAllocations exRequest \<noteq> []" by (simp add: ex_eligible)
  let ?res = "resultOf exRequest
            (dayLoop (simEnv oneSharedDayMarket exRequest) 0 [''2024-01-02'', ''2024-01-03'']
               (initialState exRequest))"
  have r: "runSimulation oneSharedDayMarket exRequest = ([''AAA''], Inr ?res)"
    unfolding runSimulation_fetched [OF el shared_fetch] shared_days by (simp add: ex_tickers)
  have d: "map tl_date (timeline ?res) = [''2024-01-02'', ''2024-01-03'']"
    by (simp add: resultOf_def dates_dayLoop initialState_def del: dayLoop.simps)
  show ?thesis by (rule exI [where x = ?res]) (rule conjI [OF r d])
qed

lemma repeated_series:
  "seriesOf repeatedDayMarket exRequest ''AAA'' =
     [plainPoint ''2024-01-02'' 100, plainPoint ''2024-01-02'' 100]"
  by (simp add: seriesOf_def repeatedDayMarket_def)

lemma repeated_fetch:
  "\<forall>t \<in> set (simTickers exRequest). fetchSucceeds repeatedDayMarket exRequest t"
  by (simp add: ex_tickers fetchSucceeds_def repeatedDayMarket_def)

lemma repeated_days:
  "tradingDaysOf repeatedDayMarket exRequest = [''2024-01-02'', ''2024-01-02'']"
proof -
  have "historyMapOf repeatedDayMarket exRequest ''AAA''
      = seriesOf repeatedDayMarket exRequest ''AAA''"
    by (rule historyMapOf_apply) (simp add: ex_tickers)
  then show ?thesis
    by (simp add: tradingDaysOf_def ex_eligible repeated_series intersectDates_def sortIsoDates_def
          plainPoint_def ex_fields upper_aaa)
qed

lemma repeated_overlapping: "overlappingDays repeatedDayMarket exRequest = [''2024-01-02'']"
  by (simp add: overlappingDays_def ex_eligible repeated_series plainPoint_def ex_fields upper_aaa)

lemma repeated_run:
  "\<exists>res. runSimulation repeatedDayMarket exRequest = ([''AAA''], Inr res)
       \<and> map tl_date (timeline res) = [''2024-01-02'', ''2024-01-02'']"
proof -
  have el: "eligibleAllocations exRequest \<noteq> []" by (simp add: ex_eligible)
  let ?res = "resultOf exRequest
            (dayLoop (simEnv repeatedDayMarket exRequest) 0 [''2024-01-02'', ''2024-01-02'']
               (initialState exRequest))"
  have r: "runSimulation repeatedDayMarket exRequest = ([''AAA''], Inr ?res)"
    unfolding runSimulation_fetched [OF el repeated_fetch] repeated_days by (simp add: ex_tickers)
  have d: "map tl_date (timeline ?res) = [''2024-01-02'', ''2024-01-02'']"
    by (simp add: resultOf_def dates_dayLoop initialState_def del: dayLoop.simps)
  show ?thesis by (rule exI [where x = ?res]) (rule conjI [OF r d])
qed

text \<open>The payload of the route's tests at the weights 50 and 50, on the same market.\<close>

lemma payload_fields:
  "benchmarkTicker (payloadWithWeights w1 w2) = ''SPY''"
  "allocations (payloadWithWeights w1 w2) =
     [\<lparr>in_ticker = ''SPY'', targetWeight = w1, in_expenseRatio = 9 / 10000\<rparr>,
      \<lparr>in_ticker = ''QQQ'', targetWeight = w2, in_expenseRatio = 2 / 1000\<rparr>]"
  by (simp_all add: payloadWithWeights_def)

lemma payload_eligible:
  "eligibleAllocations (payloadWithWeights 50 50) =
     [\<lparr>ticker = ''SPY'', weight = 1 / 2, expenseRatio = 9 / 10000\<rparr>,
      \<lparr>ticker = ''QQQ'', weight = 1 / 2, expenseRatio = 2 / 1000\<rparr>]"
  by (simp add: eligibleAllocations_def normalizeAllocations_def payload_fields upper_tickers)

lemma payload_tickers: "simTickers (payloadWithWeights 50 50) = [''SPY'', ''QQQ'']"
  by (simp add: simTickers_def payload_eligible uniqueInOrder_def payload_fields upper_tickers)

lemma payload_series:
  "seriesOf oneSharedDayMarket (payloadWithWeights 50 50) ''SPY'' =
     [plainPoint ''2024-01-02'' 100, plainPoint ''2024-01-03'' 110]"
  "seriesOf oneSharedDayMarket (payloadWithWeights 50 50) ''QQQ'' =
     [plainPoint ''2024-01-03'' 30, plainPoint ''2024-01-04'' 31]"
  by (simp_all add: seriesOf_def oneSharedDayMarket_def)

lemma payload_overlapping:
  "overlappingDays oneSharedDayMarket (payloadWithWeights 50 50) = [''2024-01-03'']"
  by (simp add: overlappingDays_def payload_eligible payload_fields upper_tickers payload_series
        plainPoint_def)

text \<open>
  Claim C7, as amended. When no allocation has a positive weight, \<^verbatim>\<open>runSimulation\<close>
  fails with the error of the missing positive weight, whatever the market data source would
  answer, and without a call of \<^verbatim>\<open>getHistoricalSeries\<close> (the list of the tickers
  fetched is empty); no day is processed. When some allocation has a positive weight, every
  series of the run is fetched and has at most one point per date, and the overlapping trading
  days (the dates shared by the series of every allocation of positive weight and the series
  of the benchmark) number fewer than 2, it fails with the error of insufficient overlapping
  days. In both cases the result is the error alone: no timeline is returned.
\<close>

theorem C7_failures:
  "((\<forall>a \<in> set (allocations request). targetWeight a \<le> 0) \<longrightarrow>
      runSimulation market request = ([], Inl NoPositiveWeightError))
   \<and> ((\<exists>a \<in> set (allocations request). 0 < targetWeight a)
        \<and> (\<forall>t \<in> set (simTickers request). fetchSucceeds market request t)
        \<and> (\<forall>t \<in> set (simTickers request). distinct (map date (seriesOf market request t)))
        \<and> length (overlappingDays market request) < 2 \<longrightarrow>
      snd (runSimulation market request) = Inl InsufficientDaysError)"
proof (intro conjI impI)
  assume "\<forall>a \<in> set (allocations request). targetWeight a \<le> 0"
  then have "eligibleAllocations request = []"
    by (auto simp add: eligibleAllocations_def normalizeAllocations_def filter_empty_conv)
  then show "runSimulation market request = ([], Inl NoPositiveWeightError)"
    by (rule runSimulation_no_eligible)
next
  assume a: "(\<exists>a \<in> set (allocations request). 0 < targetWeight a)
        \<and> (\<forall>t \<in> set (simTickers request). fetchSucceeds market request t)
        \<and> (\<forall>t \<in> set (simTickers request). distinct (map date (seriesOf market request t)))
        \<and> length (overlappingDays market request) < 2"
  then obtain x where "x \<in> set (allocations request)" "0 < targetWeight x" by blast
  then have el: "eligibleAllocations request \<noteq> []"
    by (auto simp add: eligibleAllocations_def normalizeAllocations_def filter_empty_conv)
  from a have d: "\<forall>t \<in> set (simTickers request). distinct (map date (seriesOf market request t))"
    by blast
  from tradingDaysOf_length [OF el d] a
  have "length (tradingDaysOf market request) < 2" by simp
  with runSimulation_fetched [OF el] a
  show "snd (runSimulation market request) = Inl InsufficientDaysError" by simp
qed

text \<open>
  Claim C7 as stated fails in its second part, on a request that the schema accepts: 100% of
  AAA, which is also the benchmark, beside BBB at weight 0. AAA has the second and the third of
  January and BBB the third and the fourth, so that the series of the allocation tickers and
  of the benchmark share one date; but BBB is dropped by the filter on the weight before
  anything is fetched, and the run returns a timeline of two points. And when the series of
  AAA has two points of one date, there is one overlapping date, and the run returns a
  timeline of two points of that date: \<^verbatim>\<open>intersectDates\<close> keeps both.
\<close>

theorem C7_failures_counterexample:
  "simulationRequestSchema_ok exRequest
   \<and> seriesOf oneSharedDayMarket exRequest ''AAA'' =
       [plainPoint ''2024-01-02'' 100, plainPoint ''2024-01-03'' 110]
   \<and> seriesOf oneSharedDayMarket exRequest ''BBB'' =
       [plainPoint ''2024-01-03'' 30, plainPoint ''2024-01-04'' 31]
   \<and> set (map date (seriesOf oneSharedDayMarket exRequest ''AAA''))
       \<inter> set (map date (seriesOf oneSharedDayMarket exRequest ''BBB''))
       \<inter> set (map date (seriesOf oneSharedDayMarket exRequest
                           (toUpperCase (benchmarkTicker exRequest))))
       = {''2024-01-03''}
   \<and> (\<exists>res. runSimulation oneSharedDayMarket exRequest = ([''AAA''], Inr res)
         \<and> map tl_date (timeline res) = [''2024-01-02'', ''2024-01-03''])
   \<and> seriesOf repeatedDayMarket exRequest ''AAA'' =
       [plainPoint ''2024-01-02'' 100, plainPoint ''2024-01-02'' 100]
   \<and> overlappingDays repeatedDayMarket exRequest = [''2024-01-02'']
   \<and> (\<exists>res. runSimulation repeatedDayMarket exRequest = ([''AAA''], Inr res)
         \<and> map tl_date (timeline res) = [''2024-01-02'', ''2024-01-02''])"
proof -
  have "set (map date (seriesOf oneSharedDayMarket exRequest ''AAA''))
       \<inter> set (map date (seriesOf oneSharedDayMarket exRequest ''BBB''))
       \<inter> set (map date (seriesOf oneSharedDayMarket exRequest
                           (toUpperCase (benchmarkTicker exRequest))))
       = {''2024-01-03''}"
    by (simp add: shared_series ex_fields upper_aaa plainPoint_def)
  with ex_schema shared_series shared_run repeated_series repeated_overlapping repeated_run
  show ?thesis by simp
qed

text \<open>
  The two failures, the second on a request with two allocations of positive weight whose
  series share one date.
\<close>

theorem C7_failures_witness:
  "list_all (\<lambda>a. targetWeight a \<le> 0) (allocations zeroWeightRequest)
   \<and> runSimulation failingMarket zeroWeightRequest = ([], Inl NoPositiveWeightError)
   \<and> list_ex (\<lambda>a. 0 < targetWeight a) (allocations (payloadWithWeights 50 50))
   \<and> list_all (fetchSucceeds oneSharedDayMarket (payloadWithWeights 50 50))
        (simTickers (payloadWithWeights 50 50))
   \<and> list_all (\<lambda>t. distinct (map date (seriesOf oneSharedDayMarket (payloadWithWeights 50 50) t)))
        (simTickers (payloadWithWeights 50 50))
   \<and> overlappingDays oneSharedDayMarket (payloadWithWeights 50 50) = [''2024-01-03'']
   \<and> length (overlappingDays oneSharedDayMarket (payloadWithWeights 50 50)) < 2
   \<and> snd (runSimulation oneSharedDayMarket (payloadWithWeights 50 50)) = Inl InsufficientDaysError"
proof -
  have z: "\<forall>a \<in> set (allocations zeroWeightRequest). targetWeight a \<le> 0"
    by (simp add: zero_fields)
  have pos: "\<exists>a \<in> set (allocations (payloadWithWeights 50 50)). 0 < targetWeight a"
    by (simp add: payload_fields)
  have f: "\<forall>t \<in> set (simTickers (payloadWithWeights 50 50)).
             fetchSucceeds oneSharedDayMarket (payloadWithWeights 50 50) t"
    by (simp add: payload_tickers fetchSucceeds_def oneSharedDayMarket_def)
  have d: "\<forall>t \<in> set (simTickers (payloadWithWeights 50 50)).
             distinct (map date (seriesOf oneSharedDayMarket (payloadWithWeights 50 50) t))"
    by (simp add: payload_tickers payload_series plainPoint_def)
  have l: "length (overlappingDays oneSharedDayMarket (payloadWithWeights 50 50)) < 2"
    by (simp add: payload_overlapping)
  from C7_failures [of zeroWeightRequest failingMarket] z
  have r1: "runSimulation failingMarket zeroWeightRequest = ([], Inl NoPositiveWeightError)"
    by blast
  from C7_failures [of "payloadWithWeights 50 50" oneSharedDayMarket] pos f d l
  have r2: "snd (runSimulation oneSharedDayMarket (payloadWithWeights 50 50))
      = Inl InsufficientDaysError"
    by blast
  from z pos f d l r1 r2 payload_overlapping show ?thesis
    by (simp add: list_all_iff list_ex_iff)
qed

subsection \<open>C8: the weight sum in the request schema\<close>

text \<open>The three weight sums of the spec, on the payload of the route's tests.\<close>

lemma totalTargetWeight_sum: "totalTargetWeight allocs = sum_list (map targetWeight allocs)"
  by (simp add: totalTargetWeight_def foldl_add_sum_list)

lemma parsed_weights:
  "totalTargetWeight (allocations (parsedRequest value)) = totalTargetWeight (allocations value)"
  by (simp add: totalTargetWeight_sum parsedRequest_def comp_def)

lemma schema_ok_weights:
  assumes "simulationRequestSchema_ok value"
  shows "5 / 100 < totalTargetWeight (allocations value)
       \<and> totalTargetWeight (allocations value) \<le> 10005 / 100"
proof -
  from assms have "superRefineIssues (parsedRequest value) = []"
    by (simp add: simulationRequestSchema_ok_def)
  then have "\<not> totalTargetWeight (allocations (parsedRequest value)) \<le> 5 / 100"
    and "\<not> totalTargetWeight (allocations (parsedRequest value)) > 10005 / 100"
    by (simp_all add: superRefineIssues_def Let_def split: if_splits)
  then show ?thesis by (simp add: parsed_weights)
qed

lemma trim_tickers: "trim ''SPY'' = ''SPY''" "trim ''QQQ'' = ''QQQ''"
  by (simp_all add: trim_def isSpace_def)

lemma payload_dates: "\<not> startNotBeforeEnd ''2024-01-02'' ''2024-01-05''"
  by (simp add: startNotBeforeEnd_def cal_defs)

lemma payload_ok_iff:
  "simulationRequestSchema_ok (payloadWithWeights w1 w2) \<longleftrightarrow>
     0 \<le> w1 \<and> w1 \<le> 100 \<and> 0 \<le> w2 \<and> w2 \<le> 100 \<and> 5 / 100 < w1 + w2 \<and> w1 + w2 \<le> 10005 / 100"
proof -
  have b: "baseSchema_ok (payloadWithWeights w1 w2) \<longleftrightarrow>
      0 \<le> w1 \<and> w1 \<le> 100 \<and> 0 \<le> w2 \<and> w2 \<le> 100"
    by (auto simp add: baseSchema_ok_def payloadWithWeights_def allocationSchema_ok_def
          trim_tickers isDigit_def)
  have p: "parsedRequest (payloadWithWeights w1 w2) = payloadWithWeights w1 w2"
    by (simp add: parsedRequest_def payloadWithWeights_def trim_tickers)
  have s: "superRefineIssues (payloadWithWeights w1 w2) = [] \<longleftrightarrow>
      5 / 100 < w1 + w2 \<and> w1 + w2 \<le> 10005 / 100"
    by (auto simp add: superRefineIssues_def payloadWithWeights_def payload_dates
          totalTargetWeight_def upper_tickers uniqueInOrder_def Let_def)
  show ?thesis unfolding simulationRequestSchema_ok_def p b s by blast
qed

lemma payload_total: "totalTargetWeight (allocations (payloadWithWeights w1 w2)) = w1 + w2"
  by (simp add: totalTargetWeight_def payloadWithWeights_def)

text \<open>
  Claim C8, as amended. A request that the schema accepts has a weight sum above 0 and at
  most 100.05 (above 0.05, in fact); beside the conditions on the other fields, on the dates
  and on the uniqueness of the tickers, that the sum is above 0.05 and at most 100.05 is all
  the schema asks of it. On the payload of the route's
  tests, the weights 50 and 50 (sum 100) and 40 and 40 (sum 80) are accepted, and the weights
  50.06 and 50 (sum 100.06) are rejected.
\<close>

theorem C8_weight_sum:
  "(simulationRequestSchema_ok value \<longrightarrow>
      5 / 100 < totalTargetWeight (allocations value)
      \<and> totalTargetWeight (allocations value) \<le> 10005 / 100)
   \<and> (simulationRequestSchema_ok value \<longleftrightarrow>
        baseSchema_ok value
        \<and> \<not> startNotBeforeEnd (startDate value) (endDate value)
        \<and> 5 / 100 < totalTargetWeight (allocations value)
        \<and> totalTargetWeight (allocations value) \<le> 10005 / 100
        \<and> length (uniqueInOrder (map (\<lambda>a. toUpperCase (trim (in_ticker a))) (allocations value)))
            = length (allocations value))
   \<and> totalTargetWeight (allocations (payloadWithWeights 50 50)) = 100
   \<and> simulationRequestSchema_ok (payloadWithWeights 50 50)
   \<and> totalTargetWeight (allocations (payloadWithWeights 40 40)) = 80
   \<and> simulationRequestSchema_ok (payloadWithWeights 40 40)
   \<and> totalTargetWeight (allocations (payloadWithWeights (5006 / 100) 50)) = 10006 / 100
   \<and> \<not> simulationRequestSchema_ok (payloadWithWeights (5006 / 100) 50)"
proof -
  have a: "simulationRequestSchema_ok value \<longrightarrow>
      5 / 100 < totalTargetWeight (allocations value)
      \<and> totalTargetWeight (allocations value) \<le> 10005 / 100"
    using schema_ok_weights by blast
  have issues: "superRefineIssues (parsedRequest value) = [] \<longleftrightarrow>
        \<not> startNotBeforeEnd (startDate value) (endDate value)
        \<and> 5 / 100 < totalTargetWeight (allocations value)
        \<and> totalTargetWeight (allocations value) \<le> 10005 / 100
        \<and> length (uniqueInOrder (map (\<lambda>a. toUpperCase (trim (in_ticker a))) (allocations value)))
            = length (allocations value)"
  proof -
    have t: "totalTargetWeight (allocations (parsedRequest value))
        = totalTargetWeight (allocations value)" by (rule parsed_weights)
    have f: "startDate (parsedRequest value) = startDate value"
      "endDate (parsedRequest value) = endDate value"
      "length (allocations (parsedRequest value)) = length (allocations value)"
      "map (\<lambda>allocation. toUpperCase (in_ticker allocation)) (allocations (parsedRequest value))
        = map (\<lambda>a. toUpperCase (trim (in_ticker a))) (allocations value)"
      by (simp_all add: parsedRequest_def comp_def)
    show ?thesis
      unfolding superRefineIssues_def Let_def t f by auto
  qed
  have b: "simulationRequestSchema_ok value \<longleftrightarrow>
        baseSchema_ok value
        \<and> \<not> startNotBeforeEnd (startDate value) (endDate value)
        \<and> 5 / 100 < totalTargetWeight (allocations value)
        \<and> totalTargetWeight (allocations value) \<le> 10005 / 100
        \<and> length (uniqueInOrder (map (\<lambda>a. toUpperCase (trim (in_ticker a))) (allocations value)))
            = length (allocations value)"
    unfolding simulationRequestSchema_ok_def issues ..
  have c: "totalTargetWeight (allocations (payloadWithWeights 50 50)) = 100"
    "totalTargetWeight (allocations (payloadWithWeights 40 40)) = 80"
    "totalTargetWeight (allocations (payloadWithWeights (5006 / 100) 50)) = 10006 / 100"
    by (simp_all add: payload_total)
  have d: "simulationRequestSchema_ok (payloadWithWeights 50 50)"
    "simulationRequestSchema_ok (payloadWithWeights 40 40)"
    "\<not> simulationRequestSchema_ok (payloadWithWeights (5006 / 100) 50)"
    by (simp_all add: payload_ok_iff)
  from a b c d show ?thesis by blast
qed

theorem C8_weight_sum_witness:
  "simulationRequestSchema_ok (payloadWithWeights 40 40)
   \<and> 5 / 100 < totalTargetWeight (allocations (payloadWithWeights 40 40))
   \<and> totalTargetWeight (allocations (payloadWithWeights 40 40)) \<le> 10005 / 100"
proof -
  have ok: "simulationRequestSchema_ok (payloadWithWeights 40 40)"
    by (simp add: payload_ok_iff)
  from C8_weight_sum [of "payloadWithWeights 40 40"] ok
  have "5 / 100 < totalTargetWeight (allocations (payloadWithWeights 40 40))
   \<and> totalTargetWeight (allocations (payloadWithWeights 40 40)) \<le> 10005 / 100"
    by blast
  with ok show ?thesis by blast
qed

text \<open>
  Claim C8 as stated fails between 100 and 100.05: the weights 50.03 and 50 are accepted, and
  their sum 100.03 is not in (0, 100].
\<close>

theorem C8_weight_sum_counterexample:
  "simulationRequestSchema_ok (payloadWithWeights (5003 / 100) 50)
   \<and> totalTargetWeight (allocations (payloadWithWeights (5003 / 100) 50)) = 10003 / 100
   \<and> \<not> (10003 / 100 \<le> (100::real))"
  by (simp add: payload_ok_iff payload_total)

end
